theory Spec2Isabelle
  imports Main
begin

unbundle bit_operations_syntax

section \<open>Python values used by tingwu\_transcribe.py\<close>

text \<open>
  A Python \<open>str\<close> is modelled as a \<open>string\<close> whose characters are the code points
  below 256; \<open>bytes\<close> are lists of numbers below 256. Exceptions are values of the
  type \<open>error\<close>; a function that can raise returns \<open>error + 'a\<close>.
\<close>

type_synonym byte = nat
type_synonym u32 = nat

datatype error =
    KeyError string
  | ValueError
  | TypeError
  | AttributeError
  | URLError
  | TimeoutError
  | UnicodeDecodeError

definition nl :: string where
  "nl = [CHR 0x0A]"

text \<open>\<open>str.encode()\<close>: UTF-8, one byte below 128 and two bytes from 128 to 255.\<close>

definition encode_char :: "char \<Rightarrow> byte list" where
  "encode_char c =
     (let n = (of_char c :: nat)
      in if n < 128 then [n] else [192 + n div 64, 128 + n mod 64])"

definition encode :: "string \<Rightarrow> byte list" where
  "encode s = concat (map encode_char s)"

text \<open>\<open>sep.join(parts)\<close>.\<close>

fun join :: "string \<Rightarrow> string list \<Rightarrow> string" where
  "join sep [] = []"
| "join sep [x] = x"
| "join sep (x # y # ys) = x @ sep @ join sep (y # ys)"

section \<open>hashlib.sha256 and hmac\<close>

text \<open>
  SHA-256 as in FIPS 180-4, on 32-bit words kept as natural numbers with the
  wrap-around written out.
\<close>

definition add32 :: "u32 \<Rightarrow> u32 \<Rightarrow> u32" where
  "add32 x y = (x + y) mod 4294967296"

definition rotr :: "nat \<Rightarrow> u32 \<Rightarrow> u32" where
  "rotr n x = drop_bit n x OR (push_bit (32 - n) x) mod 4294967296"

definition Ch :: "u32 \<Rightarrow> u32 \<Rightarrow> u32 \<Rightarrow> u32" where
  "Ch x y z = (x AND y) XOR ((x XOR 4294967295) AND z)"

definition Maj :: "u32 \<Rightarrow> u32 \<Rightarrow> u32 \<Rightarrow> u32" where
  "Maj x y z = (x AND y) XOR (x AND z) XOR (y AND z)"

definition bsig0 :: "u32 \<Rightarrow> u32" where
  "bsig0 x = rotr 2 x XOR rotr 13 x XOR rotr 22 x"

definition bsig1 :: "u32 \<Rightarrow> u32" where
  "bsig1 x = rotr 6 x XOR rotr 11 x XOR rotr 25 x"

definition ssig0 :: "u32 \<Rightarrow> u32" where
  "ssig0 x = rotr 7 x XOR rotr 18 x XOR drop_bit 3 x"

definition ssig1 :: "u32 \<Rightarrow> u32" where
  "ssig1 x = rotr 17 x XOR rotr 19 x XOR drop_bit 10 x"

definition K256 :: "u32 list" where
  "K256 = [
   1116352408, 1899447441, 3049323471, 3921009573, 961987163, 1508970993, 2453635748, 2870763221,
   3624381080, 310598401, 607225278, 1426881987, 1925078388, 2162078206, 2614888103, 3248222580,
   3835390401, 4022224774, 264347078, 604807628, 770255983, 1249150122, 1555081692, 1996064986,
   2554220882, 2821834349, 2952996808, 3210313671, 3336571891, 3584528711, 113926993, 338241895,
   666307205, 773529912, 1294757372, 1396182291, 1695183700, 1986661051, 2177026350, 2456956037,
   2730485921, 2820302411, 3259730800, 3345764771, 3516065817, 3600352804, 4094571909, 275423344,
   430227734, 506948616, 659060556, 883997877, 958139571, 1322822218, 1537002063, 1747873779,
   1955562222, 2024104815, 2227730452, 2361852424, 2428436474, 2756734187, 3204031479, 3329325298]"

type_synonym hstate = "u32 \<times> u32 \<times> u32 \<times> u32 \<times> u32 \<times> u32 \<times> u32 \<times> u32"

definition H256 :: hstate where
  "H256 = (1779033703, 3144134277, 1013904242, 2773480762,
           1359893119, 2600822924, 528734635, 1541459225)"

text \<open>The sixteen big-endian words of a 64-byte block.\<close>

fun be32 :: "byte list \<Rightarrow> u32 list" where
  "be32 (a # b # c # d # bs) = (a * 16777216 + b * 65536 + c * 256 + d) # be32 bs"
| "be32 _ = []"

fun step :: "hstate \<Rightarrow> u32 \<times> u32 \<Rightarrow> hstate" where
  "step (a, b, c, d, e, f, g, h) (k, w) =
     (let t1 = add32 (add32 (add32 (add32 h (bsig1 e)) (Ch e f g)) k) w;
          t2 = add32 (bsig0 a) (Maj a b c)
      in (add32 t1 t2, a, b, c, add32 d t1, e, f, g))"

fun add_state :: "hstate \<Rightarrow> hstate \<Rightarrow> hstate" where
  "add_state (a, b, c, d, e, f, g, h) (a', b', c', d', e', f', g', h') =
     (add32 a a', add32 b b', add32 c c', add32 d d',
      add32 e e', add32 f f', add32 g g', add32 h h')"

text \<open>
  One round per constant of \<open>K256\<close>. The list \<open>w\<close> is the window
  \<open>W\<^sub>t, \<dots>, W\<^sub>t\<^sub>+\<^sub>1\<^sub>5\<close> of the message schedule; each round consumes \<open>W\<^sub>t\<close>
  and appends \<open>W\<^sub>t\<^sub>+\<^sub>1\<^sub>6\<close>.
\<close>

fun rounds :: "u32 list \<Rightarrow> u32 list \<Rightarrow> hstate \<Rightarrow> hstate" where
  "rounds [] w s = s"
| "rounds (k # ks) w s =
     rounds ks
       (tl w @ [add32 (add32 (add32 (ssig1 (w ! 14)) (w ! 9)) (ssig0 (w ! 1))) (w ! 0)])
       (step s (k, hd w))"

definition compress :: "hstate \<Rightarrow> byte list \<Rightarrow> hstate" where
  "compress s blk = add_state s (rounds K256 (be32 blk) s)"

definition len_bytes :: "nat \<Rightarrow> byte list" where
  "len_bytes n = map (\<lambda>k. drop_bit k (8 * n) mod 256) [56, 48, 40, 32, 24, 16, 8, 0]"

definition pad :: "byte list \<Rightarrow> byte list" where
  "pad m = m @ [128] @ replicate ((119 - length m mod 64) mod 64) 0 @ len_bytes (length m)"

fun blocks :: "nat \<Rightarrow> byte list \<Rightarrow> byte list list" where
  "blocks 0 bs = []"
| "blocks (Suc n) bs = take 64 bs # blocks n (drop 64 bs)"

definition sha256 :: "byte list \<Rightarrow> hstate" where
  "sha256 m = (let p = pad m in foldl compress H256 (blocks (length p div 64) p))"

definition word_bytes :: "u32 \<Rightarrow> byte list" where
  "word_bytes w = [drop_bit 24 w mod 256, drop_bit 16 w mod 256, drop_bit 8 w mod 256, w mod 256]"

fun digest :: "hstate \<Rightarrow> byte list" where
  "digest (a, b, c, d, e, f, g, h) = concat (map word_bytes [a, b, c, d, e, f, g, h])"

definition hexdigit :: "nat \<Rightarrow> char" where
  "hexdigit n = ''0123456789abcdef'' ! n"

definition hex_byte :: "byte \<Rightarrow> string" where
  "hex_byte b = [hexdigit (b div 16 mod 16), hexdigit (b mod 16)]"

definition hexdigest :: "byte list \<Rightarrow> string" where
  "hexdigest bs = concat (map hex_byte bs)"

text \<open>\<open>hashlib.sha256(m).hexdigest()\<close>.\<close>

definition sha256_hex :: "byte list \<Rightarrow> string" where
  "sha256_hex m = hexdigest (digest (sha256 m))"

text \<open>\<open>hmac.new(key, msg, hashlib.sha256)\<close>, as in RFC 2104 with block size 64.\<close>

definition hmac_key :: "byte list \<Rightarrow> byte list" where
  "hmac_key key =
     (let k = (if 64 < length key then digest (sha256 key) else key)
      in k @ replicate (64 - length k) 0)"

definition hmac_sha256 :: "byte list \<Rightarrow> byte list \<Rightarrow> byte list" where
  "hmac_sha256 key msg =
     (let k = hmac_key key;
          inner = digest (sha256 (map (\<lambda>b. b XOR 54) k @ msg))
      in digest (sha256 (map (\<lambda>b. b XOR 92) k @ inner)))"

definition hmac_sha256_hex :: "byte list \<Rightarrow> byte list \<Rightarrow> string" where
  "hmac_sha256_hex key msg = hexdigest (hmac_sha256 key msg)"

section \<open>Decoded JSON values\<close>

text \<open>
  What \<open>json.loads\<close> returns: \<open>None\<close>, \<open>bool\<close>, \<open>int\<close>, \<open>str\<close>, \<open>list\<close> and
  \<open>dict\<close> (keys in document order). Numbers with a fraction or an exponent are left out.
\<close>

datatype json =
    JNull
  | JBool bool
  | JInt int
  | JStr string
  | JArr "json list"
  | JObj "(string \<times> json) list"

text \<open>Truth value of an object in \<open>if x:\<close>.\<close>

fun truthy :: "json \<Rightarrow> bool" where
  "truthy JNull = False"
| "truthy (JBool b) = b"
| "truthy (JInt n) = (n \<noteq> 0)"
| "truthy (JStr s) = (s \<noteq> [])"
| "truthy (JArr xs) = (xs \<noteq> [])"
| "truthy (JObj kvs) = (kvs \<noteq> [])"

fun startswith :: "string \<Rightarrow> string \<Rightarrow> bool" where
  "startswith s [] = True"
| "startswith [] (c # k) = False"
| "startswith (c' # s) (c # k) = (c' = c \<and> startswith s k)"

text \<open>\<open>k in s\<close> for two strings: \<open>k\<close> occurs in \<open>s\<close>.\<close>

fun substring :: "string \<Rightarrow> string \<Rightarrow> bool" where
  "substring k [] = (k = [])"
| "substring k (c # s) = (startswith (c # s) k \<or> substring k s)"

text \<open>\<open>k in x\<close> for a string \<open>k\<close>.\<close>

fun contains :: "json \<Rightarrow> string \<Rightarrow> error + bool" where
  "contains (JObj kvs) k = Inr (map_of kvs k \<noteq> None)"
| "contains (JArr xs) k = Inr (JStr k \<in> set xs)"
| "contains (JStr s) k = Inr (substring k s)"
| "contains _ k = Inl TypeError"

text \<open>\<open>x[k]\<close> for a string \<open>k\<close>.\<close>

fun subscript :: "json \<Rightarrow> string \<Rightarrow> error + json" where
  "subscript (JObj kvs) k = (case map_of kvs k of None \<Rightarrow> Inl (KeyError k) | Some v \<Rightarrow> Inr v)"
| "subscript _ k = Inl TypeError"

text \<open>\<open>x.get(k, default)\<close>: only a \<open>dict\<close> has the method.\<close>

fun get :: "json \<Rightarrow> string \<Rightarrow> json \<Rightarrow> error + json" where
  "get (JObj kvs) k dflt = Inr (case map_of kvs k of None \<Rightarrow> dflt | Some v \<Rightarrow> v)"
| "get _ k dflt = Inl AttributeError"

text \<open>Decimal digits of a number, as \<open>str\<close> prints an \<open>int\<close>.\<close>

fun dec :: "nat \<Rightarrow> string" where
  "dec n = (if n < 10 then [char_of (48 + n)] else dec (n div 10) @ [char_of (48 + n mod 10)])"

definition dec_int :: "int \<Rightarrow> string" where
  "dec_int i = (if i < 0 then ''-'' @ dec (nat (- i)) else dec (nat i))"

section \<open>urllib.parse.urlparse\<close>

text \<open>
  The parser follows \<open>urlsplit\<close>, \<open>_splitnetloc\<close>, \<open>urlparse\<close> and
  \<open>_splitparams\<close> of CPython's \<open>urllib/parse.py\<close> on \<open>str\<close> arguments.
  The validation of a bracketed host (\<open>_check_bracketed_host\<close>, which parses IPv6 and
  IPvFuture literals) is taken as a parameter: \<open>check_bracketed_host lib h\<close> holds when
  the library accepts \<open>h\<close>. \<open>_checknetloc\<close> never raises on code points below 256.
  The second parameter, \<open>repr_of\<close>, is the text that \<open>str\<close> gives for a list or a
  dict.
\<close>

record python =
  check_bracketed_host :: "string \<Rightarrow> bool"
  repr_of :: "json \<Rightarrow> string"

record ParseResult =
  scheme :: string
  netloc :: string
  path :: string
  params :: string
  query :: string
  fragment :: string

definition is_c0_or_space :: "char \<Rightarrow> bool" where
  "is_c0_or_space c = ((of_char c :: nat) \<le> 32)"

definition is_unsafe :: "char \<Rightarrow> bool" where
  "is_unsafe c = (c = CHR 0x09 \<or> c = CHR 0x0D \<or> c = CHR 0x0A)"

definition is_ascii_alpha :: "char \<Rightarrow> bool" where
  "is_ascii_alpha c =
     (let n = (of_char c :: nat) in (65 \<le> n \<and> n \<le> 90) \<or> (97 \<le> n \<and> n \<le> 122))"

definition scheme_chars :: string where
  "scheme_chars = ''abcdefghijklmnopqrstuvwxyzABCDEFGHIJKLMNOPQRSTUVWXYZ0123456789+-.''"

definition lower :: "char \<Rightarrow> char" where
  "lower c =
     (let n = (of_char c :: nat) in if 65 \<le> n \<and> n \<le> 90 then char_of (n + 32) else c)"

definition uses_params :: "string list" where
  "uses_params = ['''', ''ftp'', ''hdl'', ''prospero'', ''http'', ''imap'', ''https'', ''shttp'',
     ''rtsp'', ''rtsps'', ''rtspu'', ''sip'', ''sips'', ''mms'', ''sftp'', ''tel'']"

text \<open>\<open>s.split(d, 1)\<close> when \<open>d\<close> occurs in \<open>s\<close>.\<close>

definition split_once :: "char \<Rightarrow> string \<Rightarrow> string \<times> string" where
  "split_once d s = (takeWhile (\<lambda>c. c \<noteq> d) s, drop 1 (dropWhile (\<lambda>c. c \<noteq> d) s))"

definition split_scheme :: "string \<Rightarrow> string \<times> string" where
  "split_scheme url =
     (let pre = takeWhile (\<lambda>c. c \<noteq> CHR '':'') url
      in if CHR '':'' \<in> set url \<and> pre \<noteq> [] \<and> list_all is_ascii_alpha (take 1 url)
            \<and> list_all (\<lambda>c. c \<in> set scheme_chars) pre
         then (map lower pre, drop (length pre + 1) url)
         else ([], url))"

definition is_delim :: "char \<Rightarrow> bool" where
  "is_delim c = (c = CHR ''/'' \<or> c = CHR ''?'' \<or> c = CHR ''#'')"

definition splitnetloc :: "string \<Rightarrow> string \<times> string" where
  "splitnetloc url =
     (takeWhile (\<lambda>c. \<not> is_delim c) (drop 2 url), dropWhile (\<lambda>c. \<not> is_delim c) (drop 2 url))"

definition bracketed_host :: "string \<Rightarrow> string" where
  "bracketed_host nloc =
     takeWhile (\<lambda>c. c \<noteq> CHR '']'') (drop 1 (dropWhile (\<lambda>c. c \<noteq> CHR ''['') nloc))"

text \<open>The two checks of the network location that can raise \<open>ValueError\<close>.\<close>

definition check_netloc :: "python \<Rightarrow> string \<Rightarrow> bool" where
  "check_netloc lib nloc =
     (if CHR ''['' \<in> set nloc \<and> CHR '']'' \<in> set nloc
      then check_bracketed_host lib (bracketed_host nloc)
      else CHR ''['' \<notin> set nloc \<and> CHR '']'' \<notin> set nloc)"

definition urlsplit :: "python \<Rightarrow> string
    \<Rightarrow> error + (string \<times> string \<times> string \<times> string \<times> string)" where
  "urlsplit lib url0 =
     (let url1 = filter (\<lambda>c. \<not> is_unsafe c) (dropWhile is_c0_or_space url0);
          (sch, url2) = split_scheme url1;
          (nloc, url3) = (if take 2 url2 = ''//'' then splitnetloc url2 else ([], url2))
      in if \<not> check_netloc lib nloc then Inl ValueError
         else
           let (url4, frag) =
                 (if CHR ''#'' \<in> set url3 then split_once CHR ''#'' url3 else (url3, []));
               (url5, qry) =
                 (if CHR ''?'' \<in> set url4 then split_once CHR ''?'' url4 else (url4, []))
           in Inr (sch, nloc, url5, qry, frag))"

definition splitparams :: "string \<Rightarrow> string \<times> string" where
  "splitparams url =
     (let seg = rev (takeWhile (\<lambda>c. c \<noteq> CHR ''/'') (rev url))
      in if CHR '';'' \<in> set seg
         then (take (length url - length seg) url @ takeWhile (\<lambda>c. c \<noteq> CHR '';'') seg,
               drop 1 (dropWhile (\<lambda>c. c \<noteq> CHR '';'') seg))
         else (url, []))"

definition urlparse :: "python \<Rightarrow> string \<Rightarrow> error + ParseResult" where
  "urlparse lib url =
     (case urlsplit lib url of
        Inl e \<Rightarrow> Inl e
      | Inr (sch, nloc, u, qry, frag) \<Rightarrow>
          let (u', prm) =
                (if sch \<in> set uses_params \<and> CHR '';'' \<in> set u then splitparams u else (u, []))
          in Inr \<lparr>scheme = sch, netloc = nloc, path = u', params = prm, query = qry,
                   fragment = frag\<rparr>)"

section \<open>Dictionaries and the store\<close>

text \<open>
  A \<open>dict\<close> keeps its insertion order: an assignment to a present key replaces the
  value in place, one to a new key appends. Dictionaries live in a store and are
  passed by reference, since \<open>sign\<close> mutates its argument.
\<close>

type_synonym dict = "(string \<times> string) list"
type_synonym ref = nat
type_synonym store = "ref \<Rightarrow> dict"

fun setitem :: "dict \<Rightarrow> string \<Rightarrow> string \<Rightarrow> dict" where
  "setitem [] k v = [(k, v)]"
| "setitem ((k', v') # d) k v = (if k' = k then (k, v) # d else (k', v') # setitem d k v)"

definition getitem :: "dict \<Rightarrow> string \<Rightarrow> error + string" where
  "getitem d k = (case map_of d k of None \<Rightarrow> Inl (KeyError k) | Some v \<Rightarrow> Inr v)"

section \<open>sign\<close>

text \<open>
  The module constants \<open>ACCESS_KEY_ID\<close>, \<open>ACCESS_KEY_SECRET\<close> and \<open>APP_KEY\<close>
  are the three fields of \<open>credentials\<close>, a parameter of every function that reads them.
\<close>

record credentials =
  ACCESS_KEY_ID :: string
  ACCESS_KEY_SECRET :: string
  APP_KEY :: string

definition signed_headers :: string where
  "signed_headers =
     ''host;x-acs-action;x-acs-content-sha256;x-acs-date;x-acs-signature-nonce;x-acs-version''"

text \<open>\<open>x or ""\<close> for an optional string.\<close>

definition or_empty :: "string option \<Rightarrow> string" where
  "or_empty x = (case x of None \<Rightarrow> [] | Some s \<Rightarrow> if s = [] then [] else s)"

text \<open>
  The statement \<open>canonical_headers = "\n".join([...])\<close>: the four subscriptions are
  evaluated in the order of the list, and the first missing key raises.
\<close>

definition canonical_headers :: "ParseResult \<Rightarrow> dict \<Rightarrow> string \<Rightarrow> error + string" where
  "canonical_headers parsed hdrs body_hash =
     (case getitem hdrs ''x-acs-action'' of
        Inl e \<Rightarrow> Inl e
      | Inr action \<Rightarrow>
     (case getitem hdrs ''x-acs-date'' of
        Inl e \<Rightarrow> Inl e
      | Inr date \<Rightarrow>
     (case getitem hdrs ''x-acs-signature-nonce'' of
        Inl e \<Rightarrow> Inl e
      | Inr nonce \<Rightarrow>
     (case getitem hdrs ''x-acs-version'' of
        Inl e \<Rightarrow> Inl e
      | Inr version \<Rightarrow>
          Inr (join nl [
            ''host:'' @ netloc parsed,
            ''x-acs-action:'' @ action,
            ''x-acs-content-sha256:'' @ body_hash,
            ''x-acs-date:'' @ date,
            ''x-acs-signature-nonce:'' @ nonce,
            ''x-acs-version:'' @ version])))))"

definition canonical_request :: "string \<Rightarrow> string \<Rightarrow> string \<Rightarrow> string \<Rightarrow> string \<Rightarrow> string" where
  "canonical_request method canonical_uri canonical_query chdrs body_hash =
     method @ nl @ canonical_uri @ nl @ canonical_query @ nl @ chdrs @ nl @ nl
       @ signed_headers @ nl @ body_hash"

definition string_to_sign :: "string \<Rightarrow> string" where
  "string_to_sign creq = ''ACS3-HMAC-SHA256'' @ nl @ sha256_hex (encode creq)"

definition signature :: "credentials \<Rightarrow> string \<Rightarrow> string" where
  "signature creds creq =
     hmac_sha256_hex (encode (ACCESS_KEY_SECRET creds)) (encode (string_to_sign creq))"

definition authorization :: "credentials \<Rightarrow> string \<Rightarrow> string" where
  "authorization creds creq =
     ''ACS3-HMAC-SHA256 Credential='' @ ACCESS_KEY_ID creds @ '',SignedHeaders=''
       @ signed_headers @ '',Signature='' @ signature creds creq"

text \<open>
  \<open>sign(method, url, headers, body=None)\<close>. The argument \<open>headers\<close> is a reference;
  the result is the returned reference, or the exception raised, together with the
  store as the call leaves it.
\<close>

definition sign :: "python \<Rightarrow> credentials \<Rightarrow> string \<Rightarrow> string \<Rightarrow> ref \<Rightarrow> string option \<Rightarrow> store
    \<Rightarrow> (error + ref) \<times> store" where
  "sign lib creds method url headers body \<sigma> =
     (case urlparse lib url of
        Inl e \<Rightarrow> (Inl e, \<sigma>)
      | Inr parsed \<Rightarrow>
          let canonical_uri = (if path parsed = [] then ''/'' else path parsed);
              canonical_query = (if query parsed = [] then [] else query parsed);
              body_hash = sha256_hex (encode (or_empty body));
              \<sigma>1 = \<sigma>(headers := setitem (\<sigma> headers) ''x-acs-content-sha256'' body_hash)
          in (case canonical_headers parsed (\<sigma>1 headers) body_hash of
                Inl e \<Rightarrow> (Inl e, \<sigma>1)
              | Inr chdrs \<Rightarrow>
                  let creq = canonical_request method canonical_uri canonical_query chdrs body_hash
                  in (Inr headers,
                      \<sigma>1(headers := setitem (\<sigma>1 headers) ''Authorization''
                                       (authorization creds creq)))))"

section \<open>The task client\<close>

text \<open>
  What the process does to the outside is a list of events. The outside answers through
  \<open>world\<close>: the \<open>n\<close>-th call of \<open>urlopen\<close> (counted from 0) finds the clock at
  \<open>clock w n\<close> and ends as \<open>urlopen w n\<close> says.
\<close>

datatype event =
    Print string
  | PrintJson json
  | Sleep nat
  | Urlopen string string dict "byte list option" nat

text \<open>
  How \<open>urlopen\<close> followed by \<open>json.loads(resp.read().decode())\<close> can end:
  a 2xx response whose body decodes to a JSON value; a 2xx response whose body is not a
  JSON document (\<open>ValueError\<close>); \<open>urllib.error.HTTPError\<close> with its status code and
  what \<open>e.read().decode()\<close> makes of its body, the text, or \<open>None\<close> when the bytes
  are not UTF-8 and \<open>decode\<close> raises \<open>UnicodeDecodeError\<close>; any other exception.
\<close>

datatype reply =
    Success json
  | Undecodable
  | HTTPError nat "string option"
  | Failure error

text \<open>
  The readings of the clock in one request: \<open>now\<close> is
  \<open>datetime.now(timezone.utc).strftime("%Y-%m-%dT%H:%M:%SZ")\<close>, \<open>nonce\<close> is
  \<open>hashlib.md5(str(time.time()).encode()).hexdigest()\<close> and \<open>epoch\<close> is
  \<open>int(time.time())\<close>.
\<close>

record reading =
  now :: string
  nonce :: string
  epoch :: nat

record world =
  clock :: "nat \<Rightarrow> reading"
  urlopen :: "nat \<Rightarrow> reply"

text \<open>A value inside an f-string.\<close>

definition format :: "python \<Rightarrow> json \<Rightarrow> string" where
  "format lib v =
     (case v of
        JStr s \<Rightarrow> s
      | JNull \<Rightarrow> ''None''
      | JBool b \<Rightarrow> (if b then ''True'' else ''False'')
      | JInt i \<Rightarrow> dec_int i
      | _ \<Rightarrow> repr_of lib v)"

text \<open>\<open>json.dumps\<close> of a string, with \<open>ensure_ascii\<close>.\<close>

definition hex4 :: "nat \<Rightarrow> string" where
  "hex4 n = [hexdigit (n div 4096 mod 16), hexdigit (n div 256 mod 16),
             hexdigit (n div 16 mod 16), hexdigit (n mod 16)]"

definition escape_char :: "char \<Rightarrow> string" where
  "escape_char c =
     (let n = (of_char c :: nat)
      in if n = 34 then [CHR 0x5C, CHR 0x22]
         else if n = 92 then [CHR 0x5C, CHR 0x5C]
         else if n = 10 then [CHR 0x5C, CHR ''n'']
         else if n = 13 then [CHR 0x5C, CHR ''r'']
         else if n = 9 then [CHR 0x5C, CHR ''t'']
         else if n = 8 then [CHR 0x5C, CHR ''b'']
         else if n = 12 then [CHR 0x5C, CHR ''f'']
         else if n < 32 \<or> 126 < n then [CHR 0x5C, CHR ''u''] @ hex4 n
         else [c])"

definition dumps_str :: "string \<Rightarrow> string" where
  "dumps_str s = [CHR 0x22] @ concat (map escape_char s) @ [CHR 0x22]"

text \<open>The request body of \<open>create_task\<close>, as \<open>json.dumps\<close> writes the dict.\<close>

definition create_task_body :: "credentials \<Rightarrow> string \<Rightarrow> nat \<Rightarrow> string" where
  "create_task_body creds file_url t =
     ''{'' @ dumps_str ''AppKey'' @ '': '' @ dumps_str (APP_KEY creds) @ '', ''
       @ dumps_str ''Input'' @ '': {''
         @ dumps_str ''SourceLanguage'' @ '': '' @ dumps_str ''en'' @ '', ''
         @ dumps_str ''FileUrl'' @ '': '' @ dumps_str file_url @ '', ''
         @ dumps_str ''TaskKey'' @ '': '' @ dumps_str (''task_'' @ dec t) @ ''}, ''
       @ dumps_str ''Parameters'' @ '': {''
         @ dumps_str ''Transcription'' @ '': {''
           @ dumps_str ''DiarizationEnabled'' @ '': true, ''
           @ dumps_str ''Diarization'' @ '': {'' @ dumps_str ''SpeakerCount'' @ '': 0}}}}''"

text \<open>
  The \<open>try\<close> block shared by \<open>create_task\<close> and \<open>get_task\<close>: the request is sent;
  only \<open>HTTPError\<close> is caught. The handler prints the status code, then evaluates
  \<open>e.read().decode()\<close> and prints it, and the function returns \<open>None\<close>; when
  \<open>decode\<close> raises, the exception leaves the handler after the first print.
\<close>

definition send :: "event \<Rightarrow> reply \<Rightarrow> event list \<times> (error + json)" where
  "send req r =
     (case r of
        Success j \<Rightarrow> ([req], Inr j)
      | Undecodable \<Rightarrow> ([req], Inl ValueError)
      | HTTPError code body \<Rightarrow>
          (case body of
             Some text \<Rightarrow>
               ([req, Print (''HTTP Error: '' @ dec code), Print text], Inr JNull)
           | None \<Rightarrow>
               ([req, Print (''HTTP Error: '' @ dec code)], Inl UnicodeDecodeError))
      | Failure e \<Rightarrow> ([req], Inl e))"

definition endpoint :: string where
  "endpoint = ''https://tingwu.cn-beijing.aliyuncs.com/''"

text \<open>
  \<open>create_task(file_url)\<close> and \<open>get_task(task_id)\<close>: the events of the call and its
  result, \<open>JNull\<close> for \<open>None\<close>. The dict literal is allocated at address 0 of an empty
  store.
\<close>

definition create_task :: "python \<Rightarrow> credentials \<Rightarrow> reading \<Rightarrow> reply \<Rightarrow> string
    \<Rightarrow> event list \<times> (error + json)" where
  "create_task lib creds rd r file_url =
     (let url = endpoint;
          headers = [(''Content-Type'', ''application/json''),
                     (''x-acs-action'', ''CreateTask''),
                     (''x-acs-version'', ''2023-09-30''),
                     (''x-acs-date'', now rd),
                     (''x-acs-signature-nonce'', nonce rd)];
          body = create_task_body creds file_url (epoch rd)
      in case sign lib creds ''POST'' url 0 (Some body) ((\<lambda>_. [])(0 := headers)) of
           (Inl e, \<sigma>) \<Rightarrow> ([], Inl e)
         | (Inr h, \<sigma>) \<Rightarrow> send (Urlopen ''POST'' url (\<sigma> h) (Some (encode body)) 30) r)"

definition get_task :: "python \<Rightarrow> credentials \<Rightarrow> reading \<Rightarrow> reply \<Rightarrow> json
    \<Rightarrow> event list \<times> (error + json)" where
  "get_task lib creds rd r task_id =
     (let url = endpoint @ ''?TaskId='' @ format lib task_id;
          headers = [(''x-acs-action'', ''GetTaskInfo''),
                     (''x-acs-version'', ''2023-09-30''),
                     (''x-acs-date'', now rd),
                     (''x-acs-signature-nonce'', nonce rd)]
      in case sign lib creds ''GET'' url 0 None ((\<lambda>_. [])(0 := headers)) of
           (Inl e, \<sigma>) \<Rightarrow> ([], Inl e)
         | (Inr h, \<sigma>) \<Rightarrow> send (Urlopen ''GET'' url (\<sigma> h) None 30) r)"

section \<open>The main block\<close>

datatype control = Break | Continue | Raise error

datatype outcome = Exit nat | Uncaught error | Running

text \<open>
  The status that the process hands to its parent: the argument of \<open>sys.exit\<close>, 0 at
  the end of the script, and 1 when the interpreter ends on an uncaught exception. A run
  that has not ended has none.
\<close>

fun exit_status :: "outcome \<Rightarrow> nat option" where
  "exit_status (Exit n) = Some n"
| "exit_status (Uncaught e) = Some 1"
| "exit_status Running = None"

text \<open>One pass through the body of \<open>while True\<close>.\<close>

definition loop_body :: "python \<Rightarrow> credentials \<Rightarrow> reading \<Rightarrow> reply \<Rightarrow> json
    \<Rightarrow> event list \<times> control" where
  "loop_body lib creds rd r task_id =
     (case get_task lib creds rd r task_id of
        (evs, Inl e) \<Rightarrow> (Sleep 10 # evs, Raise e)
      | (evs, Inr status) \<Rightarrow>
          if truthy status then
            (case get status ''Data'' (JObj []) of
               Inl e \<Rightarrow> (Sleep 10 # evs, Raise e)
             | Inr d \<Rightarrow>
            (case get d ''TaskStatus'' JNull of
               Inl e \<Rightarrow> (Sleep 10 # evs, Raise e)
             | Inr task_status \<Rightarrow>
                 if task_status = JStr ''COMPLETED'' then
                   (Sleep 10 # evs @ [Print (''Status: '' @ format lib task_status),
                                      PrintJson status], Break)
                 else if task_status = JStr ''FAILED'' then
                   (Sleep 10 # evs @ [Print (''Status: '' @ format lib task_status),
                                      Print ''Task failed!'', PrintJson status], Break)
                 else
                   (Sleep 10 # evs @ [Print (''Status: '' @ format lib task_status)], Continue)))
          else (Sleep 10 # evs, Continue))"

text \<open>
  The loop, for at most \<open>fuel\<close> passes; pass number \<open>n\<close> makes the \<open>n\<close>-th call of
  \<open>urlopen\<close>. \<open>Running\<close> says that the loop has not ended after \<open>fuel\<close> passes.
\<close>

fun poll_loop :: "python \<Rightarrow> credentials \<Rightarrow> world \<Rightarrow> json \<Rightarrow> nat \<Rightarrow> nat \<Rightarrow> event list \<times> outcome" where
  "poll_loop lib creds w task_id 0 n = ([], Running)"
| "poll_loop lib creds w task_id (Suc fuel) n =
     (case loop_body lib creds (clock w n) (urlopen w n) task_id of
        (evs, Break) \<Rightarrow> (evs, Exit 0)
      | (evs, Raise e) \<Rightarrow> (evs, Uncaught e)
      | (evs, Continue) \<Rightarrow>
          (case poll_loop lib creds w task_id fuel (Suc n) of
             (evs', out) \<Rightarrow> (evs @ evs', out)))"

text \<open>
  What follows \<open>if result:\<close>: the response is printed, the job identifier is looked
  up under \<open>Data\<close> and \<open>TaskId\<close>, and the loop is entered when it is there.
\<close>

definition after_create :: "python \<Rightarrow> credentials \<Rightarrow> world \<Rightarrow> nat \<Rightarrow> json \<Rightarrow> event list \<times> outcome" where
  "after_create lib creds w fuel result =
     (case contains result ''Data'' of
        Inl e \<Rightarrow> ([PrintJson result], Uncaught e)
      | Inr False \<Rightarrow> ([PrintJson result], Exit 0)
      | Inr True \<Rightarrow>
     (case subscript result ''Data'' of
        Inl e \<Rightarrow> ([PrintJson result], Uncaught e)
      | Inr d \<Rightarrow>
     (case contains d ''TaskId'' of
        Inl e \<Rightarrow> ([PrintJson result], Uncaught e)
      | Inr False \<Rightarrow> ([PrintJson result], Exit 0)
      | Inr True \<Rightarrow>
     (case subscript d ''TaskId'' of
        Inl e \<Rightarrow> ([PrintJson result], Uncaught e)
      | Inr task_id \<Rightarrow>
          (case poll_loop lib creds w task_id fuel 1 of
             (evs, out) \<Rightarrow>
               ([PrintJson result, Print (nl @ ''Task ID: '' @ format lib task_id),
                 Print ''Polling for result...''] @ evs, out))))))"

text \<open>The script, started with \<open>sys.argv = argv\<close>.\<close>

definition main :: "python \<Rightarrow> credentials \<Rightarrow> world \<Rightarrow> nat \<Rightarrow> string list \<Rightarrow> event list \<times> outcome" where
  "main lib creds w fuel argv =
     (if length argv < 2 then
        ([Print ''Usage: python tingwu_transcribe.py <file_url>''], Exit 1)
      else
        let file_url = argv ! 1
        in case create_task lib creds (clock w 0) (urlopen w 0) file_url of
             (evs, Inl e) \<Rightarrow> (Print (''Creating task for: '' @ file_url) # evs, Uncaught e)
           | (evs, Inr result) \<Rightarrow>
               if truthy result then
                 (case after_create lib creds w fuel result of
                    (evs', out) \<Rightarrow> (Print (''Creating task for: '' @ file_url) # evs @ evs', out))
               else (Print (''Creating task for: '' @ file_url) # evs, Exit 0))"

section \<open>Notions used in the statements\<close>

definition hex_chars :: string where
  "hex_chars = ''0123456789abcdef''"

definition is_hex64 :: "string \<Rightarrow> bool" where
  "is_hex64 s = (length s = 64 \<and> list_all (\<lambda>c. c \<in> set hex_chars) s)"

text \<open>The header block as a function of the six values.\<close>

definition header_lines :: "string \<Rightarrow> string \<Rightarrow> string \<Rightarrow> string \<Rightarrow> string \<Rightarrow> string \<Rightarrow> string list" where
  "header_lines host a bh dt n v =
     [''host:'' @ host,
      ''x-acs-action:'' @ a,
      ''x-acs-content-sha256:'' @ bh,
      ''x-acs-date:'' @ dt,
      ''x-acs-signature-nonce:'' @ n,
      ''x-acs-version:'' @ v]"

text \<open>The first of the four names that the mapping lacks, in the order of the lookups.\<close>

definition required :: "string list" where
  "required = [''x-acs-action'', ''x-acs-date'', ''x-acs-signature-nonce'', ''x-acs-version'']"

definition first_missing :: "dict \<Rightarrow> string option" where
  "first_missing d = find (\<lambda>k. map_of d k = None) required"

text \<open>The path and the query that go into the canonical request.\<close>

definition canonical_uri_of :: "ParseResult \<Rightarrow> string" where
  "canonical_uri_of p = (if path p = [] then ''/'' else path p)"

subsection \<open>The signing scheme as the specification words it\<close>

text \<open>
  These definitions follow the text of the specification, not the code: the six signed
  names in their fixed order, the header block as \<open>name:value\<close> lines in that order, the
  canonical request as seven newline-joined parts, the string to sign, the signature and
  the value of \<open>Authorization\<close>. The theorems compare them with what \<open>sign\<close> computes.
\<close>

definition spec_signed_names :: "string list" where
  "spec_signed_names = [''host'', ''x-acs-action'', ''x-acs-content-sha256'', ''x-acs-date'',
     ''x-acs-signature-nonce'', ''x-acs-version'']"

definition spec_header_block :: "string list \<Rightarrow> string" where
  "spec_header_block vals = join nl (map (\<lambda>(k, v). k @ '':'' @ v) (zip spec_signed_names vals))"

definition spec_canonical_request :: "string \<Rightarrow> string \<Rightarrow> string \<Rightarrow> string \<Rightarrow> string \<Rightarrow> string" where
  "spec_canonical_request method pth qry block body_hash =
     join nl [method, (if pth = [] then ''/'' else pth), qry, block, [],
              join '';'' spec_signed_names, body_hash]"

definition spec_string_to_sign :: "string \<Rightarrow> string" where
  "spec_string_to_sign creq = ''ACS3-HMAC-SHA256'' @ nl @ sha256_hex (encode creq)"

definition spec_signature :: "string \<Rightarrow> string \<Rightarrow> string" where
  "spec_signature secret creq = hmac_sha256_hex (encode secret) (encode (spec_string_to_sign creq))"

definition spec_authorization :: "string \<Rightarrow> string \<Rightarrow> string" where
  "spec_authorization key_id sg =
     ''ACS3-HMAC-SHA256 Credential='' @ key_id @ '',SignedHeaders=''
       @ join '';'' spec_signed_names @ '',Signature='' @ sg"

subsection \<open>Sample inputs\<close>

text \<open>A library, credentials, a clock reading and headers on which the theorems are run.\<close>

definition sample_lib :: python where
  "sample_lib = \<lparr>check_bracketed_host = (\<lambda>h. h = ''::1''), repr_of = (\<lambda>_. ''[]'')\<rparr>"

definition sample_creds :: credentials where
  "sample_creds = \<lparr>ACCESS_KEY_ID = ''AKID'', ACCESS_KEY_SECRET = ''SECRET'', APP_KEY = ''app''\<rparr>"

definition sample_reading :: reading where
  "sample_reading = \<lparr>now = ''2024-01-02T03:04:05Z'', nonce = ''abc123'', epoch = 1704164645\<rparr>"

definition sample_url :: string where
  "sample_url = ''https://tingwu.cn-beijing.aliyuncs.com/?TaskId=t-1''"

definition sample_parsed :: ParseResult where
  "sample_parsed = \<lparr>scheme = ''https'', netloc = ''tingwu.cn-beijing.aliyuncs.com'',
     path = ''/'', params = [], query = ''TaskId=t-1'', fragment = []\<rparr>"

definition sample_headers :: dict where
  "sample_headers = [(''x-acs-action'', ''GetTaskInfo''),
                     (''x-acs-version'', ''2023-09-30''),
                     (''x-acs-date'', ''2024-01-02T03:04:05Z''),
                     (''x-acs-signature-nonce'', ''abc123'')]"

definition sample_store :: store where
  "sample_store = (\<lambda>_. [])(0 := sample_headers)"

text \<open>The same entries inserted in another order, and a mapping without the date.\<close>

definition sample_reordered :: dict where
  "sample_reordered = [(''x-acs-signature-nonce'', ''abc123''),
                       (''x-acs-date'', ''2024-01-02T03:04:05Z''),
                       (''x-acs-action'', ''GetTaskInfo''),
                       (''x-acs-version'', ''2023-09-30'')]"

definition sample_incomplete :: dict where
  "sample_incomplete = [(''x-acs-action'', ''GetTaskInfo''),
                        (''x-acs-version'', ''2023-09-30''),
                        (''x-acs-signature-nonce'', ''abc123'')]"

text \<open>
  Another store: at reference 3, a mapping with the same four entries in another order,
  a content type and a stale \<open>Authorization\<close>.
\<close>

definition sample_other_store :: store where
  "sample_other_store =
     (\<lambda>_. [(''x'', ''y'')])
       (3 := (''Content-Type'', ''application/json'') # (''Authorization'', ''stale'')
               # sample_reordered)"

subsection \<open>One poll\<close>

text \<open>
  \<open>status.get("Data", {}).get("TaskStatus")\<close>, and the headers that a call of \<open>sign\<close> on
  a fresh dict literal leaves in it.
\<close>

definition task_status :: "json \<Rightarrow> error + json" where
  "task_status status =
     (case get status ''Data'' (JObj []) of
        Inl e \<Rightarrow> Inl e
      | Inr d \<Rightarrow> get d ''TaskStatus'' JNull)"

definition signed :: "python \<Rightarrow> credentials \<Rightarrow> string \<Rightarrow> string \<Rightarrow> dict \<Rightarrow> string option \<Rightarrow> dict" where
  "signed lib creds method url d body = snd (sign lib creds method url 0 body ((\<lambda>_. [])(0 := d))) 0"

definition get_task_headers :: "reading \<Rightarrow> dict" where
  "get_task_headers rd = [(''x-acs-action'', ''GetTaskInfo''),
                          (''x-acs-version'', ''2023-09-30''),
                          (''x-acs-date'', now rd),
                          (''x-acs-signature-nonce'', nonce rd)]"

definition create_task_headers :: "reading \<Rightarrow> dict" where
  "create_task_headers rd = [(''Content-Type'', ''application/json''),
                             (''x-acs-action'', ''CreateTask''),
                             (''x-acs-version'', ''2023-09-30''),
                             (''x-acs-date'', now rd),
                             (''x-acs-signature-nonce'', nonce rd)]"

definition get_task_request :: "python \<Rightarrow> credentials \<Rightarrow> reading \<Rightarrow> json \<Rightarrow> event" where
  "get_task_request lib creds rd task_id =
     Urlopen ''GET'' (endpoint @ ''?TaskId='' @ format lib task_id)
       (signed lib creds ''GET'' (endpoint @ ''?TaskId='' @ format lib task_id)
          (get_task_headers rd) None)
       None 30"

definition create_task_request :: "python \<Rightarrow> credentials \<Rightarrow> reading \<Rightarrow> string \<Rightarrow> event" where
  "create_task_request lib creds rd file_url =
     Urlopen ''POST'' endpoint
       (signed lib creds ''POST'' endpoint (create_task_headers rd)
          (Some (create_task_body creds file_url (epoch rd))))
       (Some (encode (create_task_body creds file_url (epoch rd)))) 30"

fun is_print :: "event \<Rightarrow> bool" where
  "is_print (Print s) = True"
| "is_print (PrintJson j) = True"
| "is_print (Sleep n) = False"
| "is_print (Urlopen m u h b t) = False"

text \<open>What a pass of the loop decides, as a function of how the request ended.\<close>

definition verdict :: "reply \<Rightarrow> control" where
  "verdict r =
     (case r of
        Success j \<Rightarrow>
          if truthy j then
            (case task_status j of
               Inl e \<Rightarrow> Raise e
             | Inr s \<Rightarrow> if s = JStr ''COMPLETED'' \<or> s = JStr ''FAILED'' then Break else Continue)
          else Continue
      | Undecodable \<Rightarrow> Raise ValueError
      | HTTPError c b \<Rightarrow> (case b of Some text \<Rightarrow> Continue | None \<Rightarrow> Raise UnicodeDecodeError)
      | Failure e \<Rightarrow> Raise e)"

text \<open>The world in which the \<open>n\<close>-th call of \<open>urlopen\<close> ends as the \<open>n\<close>-th reply of a list.\<close>

definition replies :: "reply list \<Rightarrow> world" where
  "replies rs = \<lparr>clock = (\<lambda>_. sample_reading),
                 urlopen = (\<lambda>n. if n < length rs then rs ! n else Success JNull)\<rparr>"

definition created :: reply where
  "created = Success (JObj [(''Data'', JObj [(''TaskId'', JStr ''t-1'')])])"

definition status_reply :: "string \<Rightarrow> reply" where
  "status_reply s = Success (JObj [(''Data'', JObj [(''TaskStatus'', JStr s)])])"

text \<open>
  A run in which the job is created, three polls leave the loop running (a status
  \<open>PENDING\<close>, an HTTP error, a response without status) and the fourth finds
  \<open>COMPLETED\<close>.
\<close>

definition sample_world :: world where
  "sample_world = replies [created, status_reply ''PENDING'', HTTPError 500 (Some ''busy''),
                           Success (JObj [(''Data'', JObj [])]), status_reply ''COMPLETED'']"

definition sample_argv :: "string list" where
  "sample_argv = [''tingwu_transcribe.py'', ''https://example.com/a.mp3'']"

section \<open>Digests are 64 lowercase hexadecimal characters\<close>

lemma length_word_bytes: "length (word_bytes w) = 4"
  by (simp add: word_bytes_def)

lemma length_digest: "length (digest s) = 32"
  by (cases s rule: digest.cases) (simp add: length_word_bytes)

lemma length_hexdigest: "length (hexdigest bs) = 2 * length bs"
  by (induction bs) (simp_all add: hexdigest_def hex_byte_def)

lemma hexdigit_in_hex_chars: "n < 16 \<Longrightarrow> hexdigit n \<in> set hex_chars"
proof -
  assume "n < 16"
  then have "n < length ''0123456789abcdef''" by simp
  then have "''0123456789abcdef'' ! n \<in> set ''0123456789abcdef''" by (rule nth_mem)
  then show ?thesis by (simp only: hexdigit_def hex_chars_def)
qed

lemma hex_byte_chars: "set (hex_byte b) \<subseteq> set hex_chars"
  by (simp add: hex_byte_def hexdigit_in_hex_chars)

lemma hexdigest_chars: "set (hexdigest bs) \<subseteq> set hex_chars"
  using hex_byte_chars by (auto simp: hexdigest_def)

lemma length_sha256_hex: "length (sha256_hex m) = 64"
  by (simp add: sha256_hex_def length_hexdigest length_digest)

lemma sha256_hex_chars: "list_all (\<lambda>c. c \<in> set hex_chars) (sha256_hex m)"
  using hexdigest_chars by (auto simp: sha256_hex_def list_all_iff)

lemma length_hmac_sha256_hex: "length (hmac_sha256_hex key msg) = 64"
  by (simp add: hmac_sha256_hex_def hmac_sha256_def Let_def length_hexdigest length_digest)

lemma hmac_sha256_hex_chars: "list_all (\<lambda>c. c \<in> set hex_chars) (hmac_sha256_hex key msg)"
  using hexdigest_chars by (auto simp: hmac_sha256_hex_def list_all_iff)

section \<open>Dictionary facts\<close>

lemma map_of_setitem: "map_of (setitem d k v) = (map_of d)(k \<mapsto> v)"
  by (induction d) auto

lemma map_of_setitem_same: "map_of (setitem d k v) k = Some v"
  by (simp add: map_of_setitem)

lemma map_of_setitem_other: "k' \<noteq> k \<Longrightarrow> map_of (setitem d k v) k' = map_of d k'"
  by (simp add: map_of_setitem)

lemma keys_setitem: "set (map fst (setitem d k v)) = insert k (set (map fst d))"
proof (induction d)
  case Nil
  then show ?case by simp
next
  case (Cons x d)
  then show ?case by (cases x) (auto simp: insert_commute)
qed

lemma keys_order_setitem:
  "map fst (setitem d k v) = (if k \<in> set (map fst d) then map fst d else map fst d @ [k])"
proof (induction d)
  case Nil
  then show ?case by simp
next
  case (Cons x d)
  then show ?case by (cases x) (auto simp del: set_map)
qed

lemma getitem_Some: "map_of d k = Some v \<Longrightarrow> getitem d k = Inr v"
  by (simp add: getitem_def)

lemma getitem_None: "map_of d k = None \<Longrightarrow> getitem d k = Inl (KeyError k)"
  by (simp add: getitem_def)

lemma same_entries_same_lookup:
  "set d = set d' \<Longrightarrow> distinct (map fst d) \<Longrightarrow> distinct (map fst d') \<Longrightarrow> map_of d = map_of d'"
  by (simp add: map_of_inject_set)

section \<open>What sign computes\<close>

lemma canonical_headers_lookup:
  assumes "map_of d ''x-acs-action'' = Some a"
    and "map_of d ''x-acs-date'' = Some dt"
    and "map_of d ''x-acs-signature-nonce'' = Some n"
    and "map_of d ''x-acs-version'' = Some v"
  shows "canonical_headers p d bh = Inr (join nl (header_lines (netloc p) a bh dt n v))"
  using assms by (simp add: canonical_headers_def getitem_Some header_lines_def)

lemma canonical_headers_depends_on_lookup:
  "map_of d = map_of d' \<Longrightarrow> canonical_headers p d bh = canonical_headers p d' bh"
proof -
  assume "map_of d = map_of d'"
  then have "getitem d = getitem d'"
    by (simp add: getitem_def fun_eq_iff)
  then show ?thesis
    by (simp only: canonical_headers_def)
qed

lemma canonical_headers_after_insert:
  assumes "map_of d ''x-acs-action'' = Some a"
    and "map_of d ''x-acs-date'' = Some dt"
    and "map_of d ''x-acs-signature-nonce'' = Some n"
    and "map_of d ''x-acs-version'' = Some v"
  shows "canonical_headers p (setitem d ''x-acs-content-sha256'' bh) bh'
         = Inr (join nl (header_lines (netloc p) a bh' dt n v))"
  by (rule canonical_headers_lookup) (simp_all add: map_of_setitem assms)

lemma canonical_headers_missing:
  "first_missing d = Some k \<Longrightarrow> canonical_headers p d bh = Inl (KeyError k)"
  by (auto simp: first_missing_def required_def canonical_headers_def getitem_def
           split: if_splits option.splits)

lemma first_missing_None:
  "first_missing d = None \<Longrightarrow>
     \<exists>a dt n v. map_of d ''x-acs-action'' = Some a \<and> map_of d ''x-acs-date'' = Some dt
       \<and> map_of d ''x-acs-signature-nonce'' = Some n \<and> map_of d ''x-acs-version'' = Some v"
  by (auto simp: first_missing_def required_def split: if_splits)

lemma first_missing_setitem:
  "first_missing (setitem d ''x-acs-content-sha256'' bh) = first_missing d"
  by (simp add: first_missing_def required_def map_of_setitem)

lemma sign_unparsable:
  "urlparse lib url = Inl e \<Longrightarrow> sign lib creds method url h body \<sigma> = (Inl e, \<sigma>)"
  by (simp add: sign_def)

lemma sign_missing:
  assumes "urlparse lib url = Inr p"
    and "first_missing (\<sigma> h) = Some k"
  shows "sign lib creds method url h body \<sigma>
         = (Inl (KeyError k),
            \<sigma>(h := setitem (\<sigma> h) ''x-acs-content-sha256'' (sha256_hex (encode (or_empty body)))))"
proof -
  have "first_missing (setitem (\<sigma> h) ''x-acs-content-sha256'' (sha256_hex (encode (or_empty body))))
        = Some k"
    using assms(2) by (simp add: first_missing_setitem)
  then have "canonical_headers p (setitem (\<sigma> h) ''x-acs-content-sha256''
               (sha256_hex (encode (or_empty body)))) (sha256_hex (encode (or_empty body)))
             = Inl (KeyError k)"
    by (rule canonical_headers_missing)
  then show ?thesis
    using assms(1) by (simp add: sign_def Let_def)
qed

lemma sign_returns:
  assumes "urlparse lib url = Inr p"
    and "map_of (\<sigma> h) ''x-acs-action'' = Some a"
    and "map_of (\<sigma> h) ''x-acs-date'' = Some dt"
    and "map_of (\<sigma> h) ''x-acs-signature-nonce'' = Some n"
    and "map_of (\<sigma> h) ''x-acs-version'' = Some v"
    and "bh = sha256_hex (encode (or_empty body))"
  shows "sign lib creds method url h body \<sigma>
         = (Inr h,
            \<sigma>(h := setitem (setitem (\<sigma> h) ''x-acs-content-sha256'' bh) ''Authorization''
                     (authorization creds
                        (canonical_request method (canonical_uri_of p) (query p)
                           (join nl (header_lines (netloc p) a bh dt n v)) bh))))"
proof -
  have "canonical_headers p (setitem (\<sigma> h) ''x-acs-content-sha256'' bh) bh
        = Inr (join nl (header_lines (netloc p) a bh dt n v))"
    using assms(2-5) by (rule canonical_headers_after_insert)
  then show ?thesis
    using assms(1,6) by (simp add: sign_def Let_def canonical_uri_of_def)
qed

section \<open>The code against the wording of the specification\<close>

lemma header_block_agrees:
  "join nl (header_lines host a bh dt n v) = spec_header_block [host, a, bh, dt, n, v]"
  by (simp add: header_lines_def spec_header_block_def spec_signed_names_def)

lemma canonical_request_agrees:
  "canonical_request method (canonical_uri_of p) (query p) block bh
   = spec_canonical_request method (path p) (query p) block bh"
  by (simp add: canonical_request_def canonical_uri_of_def spec_canonical_request_def
      signed_headers_def spec_signed_names_def)

lemma authorization_agrees:
  "authorization creds creq
   = spec_authorization (ACCESS_KEY_ID creds) (spec_signature (ACCESS_KEY_SECRET creds) creq)"
  by (simp add: authorization_def signature_def string_to_sign_def spec_authorization_def
      spec_signature_def spec_string_to_sign_def signed_headers_def spec_signed_names_def)

lemma spec_signature_hex: "is_hex64 (spec_signature secret creq)"
  by (simp add: is_hex64_def spec_signature_def length_hmac_sha256_hex hmac_sha256_hex_chars)

lemma sign_returns_spec:
  assumes "urlparse lib url = Inr p"
    and "map_of (\<sigma> h) ''x-acs-action'' = Some a"
    and "map_of (\<sigma> h) ''x-acs-date'' = Some dt"
    and "map_of (\<sigma> h) ''x-acs-signature-nonce'' = Some n"
    and "map_of (\<sigma> h) ''x-acs-version'' = Some v"
    and "bh = sha256_hex (encode (or_empty body))"
  shows "sign lib creds method url h body \<sigma>
         = (Inr h,
            \<sigma>(h := setitem (setitem (\<sigma> h) ''x-acs-content-sha256'' bh) ''Authorization''
                     (spec_authorization (ACCESS_KEY_ID creds)
                        (spec_signature (ACCESS_KEY_SECRET creds)
                           (spec_canonical_request method (path p) (query p)
                              (spec_header_block [netloc p, a, bh, dt, n, v]) bh)))))"
  using sign_returns [where \<sigma>=\<sigma> and h=h, OF assms]
  by (simp only: header_block_agrees canonical_request_agrees authorization_agrees)

lemma sign_inserts_hash:
  assumes "urlparse lib url = Inr p"
  shows "map_of (snd (sign lib creds method url h body \<sigma>) h) ''x-acs-content-sha256''
         = Some (sha256_hex (encode (or_empty body)))"
proof (cases "canonical_headers p (setitem (\<sigma> h) ''x-acs-content-sha256''
                (sha256_hex (encode (or_empty body)))) (sha256_hex (encode (or_empty body)))")
  case (Inl e)
  then show ?thesis
    using assms by (simp add: sign_def Let_def map_of_setitem)
next
  case (Inr c)
  then show ?thesis
    using assms by (simp add: sign_def Let_def map_of_setitem)
qed

lemma sign_other_cells:
  "r \<noteq> h \<Longrightarrow> snd (sign lib creds method url h body \<sigma>) r = \<sigma> r"
  by (simp add: sign_def Let_def split: sum.splits)

section \<open>The two endpoint URLs always parse\<close>

lemma urlparse_endpoint:
  "urlparse lib endpoint
   = Inr \<lparr>scheme = ''https'', netloc = ''tingwu.cn-beijing.aliyuncs.com'', path = ''/'',
          params = [], query = [], fragment = []\<rparr>"
  by (simp add: endpoint_def urlparse_def urlsplit_def split_scheme_def splitnetloc_def
      check_netloc_def split_once_def is_c0_or_space_def is_unsafe_def is_ascii_alpha_def
      scheme_chars_def lower_def uses_params_def is_delim_def Let_def)

lemma urlparse_sample:
  "urlparse sample_lib sample_url = Inr sample_parsed"
  by (simp add: sample_url_def sample_parsed_def urlparse_def urlsplit_def split_scheme_def
      splitnetloc_def check_netloc_def split_once_def is_c0_or_space_def is_unsafe_def
      is_ascii_alpha_def scheme_chars_def lower_def uses_params_def is_delim_def Let_def)

lemma urlparse_status_url:
  "\<exists>p. urlparse lib (endpoint @ ''?TaskId='' @ t) = Inr p
       \<and> netloc p = ''tingwu.cn-beijing.aliyuncs.com'' \<and> path p = ''/''"
  by (simp add: endpoint_def urlparse_def urlsplit_def split_scheme_def splitnetloc_def
      check_netloc_def split_once_def is_c0_or_space_def is_unsafe_def is_ascii_alpha_def
      scheme_chars_def lower_def uses_params_def is_delim_def Let_def)

section \<open>The requests of the task client\<close>

lemma sign_succeeds:
  assumes "urlparse lib url = Inr p"
    and "map_of (\<sigma> h) ''x-acs-action'' = Some a"
    and "map_of (\<sigma> h) ''x-acs-date'' = Some dt"
    and "map_of (\<sigma> h) ''x-acs-signature-nonce'' = Some n"
    and "map_of (\<sigma> h) ''x-acs-version'' = Some v"
  shows "fst (sign lib creds method url h body \<sigma>) = Inr h"
  using sign_returns [where \<sigma>=\<sigma> and h=h, OF assms refl] by simp

lemma get_task_sends:
  "get_task lib creds rd r task_id = send (get_task_request lib creds rd task_id) r"
proof -
  obtain p where p: "urlparse lib (endpoint @ ''?TaskId='' @ format lib task_id) = Inr p"
    using urlparse_status_url by blast
  have "fst (sign lib creds ''GET'' (endpoint @ ''?TaskId='' @ format lib task_id) 0 None
               ((\<lambda>_. [])(0 := get_task_headers rd))) = Inr 0"
    by (rule sign_succeeds [OF p]) (simp_all add: get_task_headers_def)
  then show ?thesis
    by (cases "sign lib creds ''GET'' (endpoint @ ''?TaskId='' @ format lib task_id) 0 None
                 ((\<lambda>_. [])(0 := get_task_headers rd))")
       (simp add: get_task_def get_task_request_def signed_def get_task_headers_def Let_def)
qed

lemma create_task_sends:
  "create_task lib creds rd r file_url = send (create_task_request lib creds rd file_url) r"
proof -
  have "fst (sign lib creds ''POST'' endpoint 0 (Some (create_task_body creds file_url (epoch rd)))
               ((\<lambda>_. [])(0 := create_task_headers rd))) = Inr 0"
    by (rule sign_succeeds [OF urlparse_endpoint]) (simp_all add: create_task_headers_def)
  then show ?thesis
    by (cases "sign lib creds ''POST'' endpoint 0 (Some (create_task_body creds file_url (epoch rd)))
                 ((\<lambda>_. [])(0 := create_task_headers rd))")
       (simp add: create_task_def create_task_request_def signed_def create_task_headers_def
          Let_def)
qed

lemma get_task_request_hash:
  "\<exists>hdrs. get_task_request lib creds rd task_id
            = Urlopen ''GET'' (endpoint @ ''?TaskId='' @ format lib task_id) hdrs None 30
          \<and> map_of hdrs ''x-acs-content-sha256'' = Some (sha256_hex [])"
proof -
  obtain p where p: "urlparse lib (endpoint @ ''?TaskId='' @ format lib task_id) = Inr p"
    using urlparse_status_url by blast
  have "map_of (signed lib creds ''GET'' (endpoint @ ''?TaskId='' @ format lib task_id)
                  (get_task_headers rd) None) ''x-acs-content-sha256''
        = Some (sha256_hex (encode (or_empty None)))"
    unfolding signed_def by (rule sign_inserts_hash [OF p])
  then show ?thesis
    by (simp add: get_task_request_def or_empty_def encode_def)
qed

section \<open>One pass of the loop, and the loop\<close>

lemma loop_body_verdict:
  "snd (loop_body lib creds rd r task_id) = verdict r"
  by (simp add: loop_body_def get_task_sends send_def verdict_def task_status_def
      split: reply.splits sum.splits option.splits)

lemma loop_body_requests:
  "filter (\<lambda>e. \<not> is_print e) (fst (loop_body lib creds rd r task_id))
   = [Sleep 10, get_task_request lib creds rd task_id]"
  by (simp add: loop_body_def get_task_sends send_def get_task_request_def
      split: reply.splits sum.splits option.splits)

lemma poll_loop_Suc:
  "snd (poll_loop lib creds w task_id (Suc fuel) n)
   = (case verdict (urlopen w n) of
        Break \<Rightarrow> Exit 0
      | Raise e \<Rightarrow> Uncaught e
      | Continue \<Rightarrow> snd (poll_loop lib creds w task_id fuel (Suc n)))"
proof (cases "loop_body lib creds (clock w n) (urlopen w n) task_id")
  case (Pair evs c)
  then have "verdict (urlopen w n) = c"
    using loop_body_verdict [of lib creds "clock w n" "urlopen w n" task_id] by simp
  then show ?thesis
    using Pair by (simp split: control.splits prod.splits)
qed

lemma poll_loop_sleeps_Suc:
  "length (filter (\<lambda>e. e = Sleep 10) (fst (poll_loop lib creds w task_id (Suc fuel) n)))
   = (case verdict (urlopen w n) of
        Continue \<Rightarrow> Suc (length (filter (\<lambda>e. e = Sleep 10)
                                 (fst (poll_loop lib creds w task_id fuel (Suc n)))))
      | _ \<Rightarrow> 1)"
proof (cases "loop_body lib creds (clock w n) (urlopen w n) task_id")
  case (Pair evs c)
  have c: "verdict (urlopen w n) = c"
    using Pair loop_body_verdict [of lib creds "clock w n" "urlopen w n" task_id] by simp
  have "filter (\<lambda>e. \<not> is_print e) evs
        = [Sleep 10, get_task_request lib creds (clock w n) task_id]"
    using Pair loop_body_requests [of lib creds "clock w n" "urlopen w n" task_id] by simp
  then have "filter (\<lambda>e. e = Sleep 10) (filter (\<lambda>e. \<not> is_print e) evs) = [Sleep 10]"
    by (simp add: get_task_request_def)
  moreover have "filter (\<lambda>e. e = Sleep 10) (filter (\<lambda>e. \<not> is_print e) evs)
                 = filter (\<lambda>e. e = Sleep 10) evs"
    by (auto simp: filter_filter intro!: filter_cong)
  ultimately have "filter (\<lambda>e. e = Sleep 10) evs = [Sleep 10]"
    by metis
  then have "length (filter (\<lambda>e. e = Sleep 10) evs) = 1"
    by simp
  then show ?thesis
    using Pair c by (simp split: control.splits prod.splits)
qed

lemma poll_loop_running:
  "(\<forall>i<k. verdict (urlopen w (n + i)) = Continue)
   \<Longrightarrow> snd (poll_loop lib creds w task_id k n) = Running
       \<and> length (filter (\<lambda>e. e = Sleep 10) (fst (poll_loop lib creds w task_id k n))) = k"
proof (induction k arbitrary: n)
  case 0
  then show ?case by simp
next
  case (Suc k)
  have first: "verdict (urlopen w n) = Continue"
    using Suc.prems [rule_format, of 0] by simp
  have "\<forall>i<k. verdict (urlopen w (Suc n + i)) = Continue"
    using Suc.prems by (metis Suc_less_eq add_Suc_shift)
  then have "snd (poll_loop lib creds w task_id k (Suc n)) = Running
       \<and> length (filter (\<lambda>e. e = Sleep 10) (fst (poll_loop lib creds w task_id k (Suc n)))) = k"
    by (rule Suc.IH)
  then show ?case
    by (simp only: poll_loop_Suc poll_loop_sleeps_Suc first control.case)
qed

lemma poll_loop_stops:
  "(\<forall>i<k. verdict (urlopen w (n + i)) = Continue) \<Longrightarrow> k < fuel
   \<Longrightarrow> snd (poll_loop lib creds w task_id fuel n)
       = (case verdict (urlopen w (n + k)) of
            Break \<Rightarrow> Exit 0
          | Raise e \<Rightarrow> Uncaught e
          | Continue \<Rightarrow> snd (poll_loop lib creds w task_id (fuel - Suc k) (Suc (n + k))))"
proof (induction k arbitrary: n fuel)
  case 0
  then obtain f where f: "fuel = Suc f"
    by (cases fuel) auto
  show ?case
    unfolding f by (simp add: poll_loop_Suc del: poll_loop.simps split: control.splits)
next
  case (Suc k)
  from Suc.prems(2) obtain f where f: "fuel = Suc f" and kf: "k < f"
    by (cases fuel) auto
  have first: "verdict (urlopen w n) = Continue"
    using Suc.prems(1) [rule_format, of 0] by simp
  have rest: "\<forall>i<k. verdict (urlopen w (Suc n + i)) = Continue"
    using Suc.prems(1) by (metis Suc_less_eq add_Suc_shift)
  have "snd (poll_loop lib creds w task_id f (Suc n))
        = (case verdict (urlopen w (Suc n + k)) of
             Break \<Rightarrow> Exit 0
           | Raise e \<Rightarrow> Uncaught e
           | Continue \<Rightarrow> snd (poll_loop lib creds w task_id (f - Suc k) (Suc (Suc n + k))))"
    using rest kf by (rule Suc.IH)
  then show ?case
    unfolding f by (simp add: poll_loop_Suc first del: poll_loop.simps split: control.splits)
qed

lemma poll_loop_exit_status:
  "snd (poll_loop lib creds w task_id fuel n) \<noteq> Exit (Suc s)"
proof (induction fuel arbitrary: n)
  case 0
  then show ?case by simp
next
  case (Suc fuel)
  then show ?case
    by (simp add: poll_loop_Suc del: poll_loop.simps split: control.splits)
qed

lemma poll_loop_no_failure_status:
  "poll_loop lib creds w task_id fuel n = (evs, Exit (Suc s)) \<Longrightarrow> False"
  using poll_loop_exit_status [of lib creds w task_id fuel n s] by simp

section \<open>The main block\<close>

lemma snd_send:
  "snd (send req r)
   = (case r of Success j \<Rightarrow> Inr j | Undecodable \<Rightarrow> Inl ValueError
      | HTTPError c b \<Rightarrow> (case b of Some text \<Rightarrow> Inr JNull | None \<Rightarrow> Inl UnicodeDecodeError)
      | Failure e \<Rightarrow> Inl e)"
  by (simp add: send_def split: reply.splits option.splits)

lemma after_create_exit_status:
  "snd (after_create lib creds w fuel result) \<noteq> Exit (Suc s)"
  by (auto simp: after_create_def split: sum.splits bool.splits prod.splits
      dest: poll_loop_no_failure_status)

lemma main_usage:
  "length argv < 2
   \<Longrightarrow> main lib creds w fuel argv = ([Print ''Usage: python tingwu_transcribe.py <file_url>''], Exit 1)"
  by (simp add: main_def)

lemma main_create_fails:
  "2 \<le> length argv \<Longrightarrow> urlopen w 0 = Failure e
   \<Longrightarrow> main lib creds w fuel argv
       = ([Print (''Creating task for: '' @ argv ! 1),
           create_task_request lib creds (clock w 0) (argv ! 1)], Uncaught e)"
  by (simp add: main_def create_task_sends send_def Let_def)

lemma main_create_http_error:
  "2 \<le> length argv \<Longrightarrow> urlopen w 0 = HTTPError code (Some text)
   \<Longrightarrow> main lib creds w fuel argv
       = ([Print (''Creating task for: '' @ argv ! 1),
           create_task_request lib creds (clock w 0) (argv ! 1),
           Print (''HTTP Error: '' @ dec code), Print text], Exit 0)"
  by (simp add: main_def create_task_sends send_def Let_def)

lemma main_create_http_error_undecodable:
  "2 \<le> length argv \<Longrightarrow> urlopen w 0 = HTTPError code None
   \<Longrightarrow> main lib creds w fuel argv
       = ([Print (''Creating task for: '' @ argv ! 1),
           create_task_request lib creds (clock w 0) (argv ! 1),
           Print (''HTTP Error: '' @ dec code)], Uncaught UnicodeDecodeError)"
  by (simp add: main_def create_task_sends send_def Let_def)

lemma main_enters_loop:
  assumes "2 \<le> length argv"
    and "urlopen w 0 = Success (JObj kvs)"
    and "map_of kvs ''Data'' = Some (JObj kvs')"
    and "map_of kvs' ''TaskId'' = Some task_id"
  shows "main lib creds w fuel argv
         = ([Print (''Creating task for: '' @ argv ! 1),
             create_task_request lib creds (clock w 0) (argv ! 1),
             PrintJson (JObj kvs),
             Print (nl @ ''Task ID: '' @ format lib task_id),
             Print ''Polling for result...'']
            @ fst (poll_loop lib creds w task_id fuel 1),
            snd (poll_loop lib creds w task_id fuel 1))"
proof -
  have "kvs \<noteq> []"
    using assms(3) by auto
  then show ?thesis
    using assms
    by (simp add: main_def create_task_sends send_def Let_def after_create_def
        split: prod.splits)
qed

lemma main_exit_status:
  "snd (main lib creds w fuel argv) = Exit (Suc s) \<Longrightarrow> length argv < 2"
proof (rule ccontr)
  assume out: "snd (main lib creds w fuel argv) = Exit (Suc s)"
  assume "\<not> length argv < 2"
  then have "snd (main lib creds w fuel argv)
             = (case urlopen w 0 of
                  Success j \<Rightarrow> if truthy j then snd (after_create lib creds w fuel j) else Exit 0
                | Undecodable \<Rightarrow> Uncaught ValueError
                | HTTPError c b \<Rightarrow>
                    (case b of Some text \<Rightarrow> Exit 0 | None \<Rightarrow> Uncaught UnicodeDecodeError)
                | Failure e \<Rightarrow> Uncaught e)"
    by (simp add: main_def create_task_sends send_def Let_def
        split: reply.splits prod.splits option.splits)
  then show False
    using out after_create_exit_status [of lib creds w fuel _ s]
    by (auto split: reply.splits if_splits option.splits)
qed

lemma main_nonzero_status:
  "exit_status (snd (main lib creds w fuel argv)) = Some (Suc s)
   \<Longrightarrow> length argv < 2 \<or> (\<exists>e. snd (main lib creds w fuel argv) = Uncaught e)"
  by (cases "snd (main lib creds w fuel argv)") (auto dest: main_exit_status)

section \<open>Signing a mapping again\<close>

lemma setitem_present: "map_of d k = Some v \<Longrightarrow> setitem d k v = d"
  by (induction d) (auto split: if_splits)

lemma setitem_twice: "setitem (setitem d k v) k v = setitem d k v"
  by (rule setitem_present) (simp add: map_of_setitem)

lemma setitem_four_times:
  "k \<noteq> k' \<Longrightarrow> setitem (setitem (setitem (setitem d k v) k' v') k v) k' v'
               = setitem (setitem d k v) k' v'"
proof -
  assume ne: "k \<noteq> k'"
  have "map_of (setitem (setitem d k v) k' v') k = Some v"
    using ne by (simp add: map_of_setitem)
  then have "setitem (setitem (setitem d k v) k' v') k v = setitem (setitem d k v) k' v'"
    by (rule setitem_present)
  then show ?thesis
    by (simp add: setitem_twice)
qed

lemma sign_returned:
  assumes "fst (sign lib creds method url h body \<sigma>) = Inr r"
  shows "\<exists>p a dt n v. urlparse lib url = Inr p
           \<and> map_of (\<sigma> h) ''x-acs-action'' = Some a \<and> map_of (\<sigma> h) ''x-acs-date'' = Some dt
           \<and> map_of (\<sigma> h) ''x-acs-signature-nonce'' = Some n
           \<and> map_of (\<sigma> h) ''x-acs-version'' = Some v"
proof (cases "urlparse lib url")
  case (Inl e)
  then show ?thesis
    using assms by (simp add: sign_unparsable)
next
  case (Inr p)
  show ?thesis
  proof (cases "first_missing (\<sigma> h)")
    case None
    then show ?thesis
      using Inr first_missing_None [of "\<sigma> h"] by blast
  next
    case (Some k)
    then show ?thesis
      using assms sign_missing [where \<sigma>=\<sigma> and h=h, OF Inr Some] by simp
  qed
qed

lemma sign_again:
  "sign lib creds method url h body (snd (sign lib creds method url h body \<sigma>))
   = sign lib creds method url h body \<sigma>"
proof (cases "urlparse lib url")
  case (Inl e)
  then show ?thesis
    by (simp add: sign_unparsable)
next
  case (Inr p)
  let ?bh = "sha256_hex (encode (or_empty body))"
  show ?thesis
  proof (cases "first_missing (\<sigma> h)")
    case (Some k)
    have one: "sign lib creds method url h body \<sigma>
               = (Inl (KeyError k), \<sigma>(h := setitem (\<sigma> h) ''x-acs-content-sha256'' ?bh))"
      using Inr Some by (rule sign_missing)
    have "first_missing ((\<sigma>(h := setitem (\<sigma> h) ''x-acs-content-sha256'' ?bh)) h) = Some k"
      using Some by (simp add: first_missing_setitem)
    then have "sign lib creds method url h body (\<sigma>(h := setitem (\<sigma> h) ''x-acs-content-sha256'' ?bh))
               = (Inl (KeyError k),
                  (\<sigma>(h := setitem (\<sigma> h) ''x-acs-content-sha256'' ?bh))
                    (h := setitem ((\<sigma>(h := setitem (\<sigma> h) ''x-acs-content-sha256'' ?bh)) h)
                            ''x-acs-content-sha256'' ?bh))"
      using Inr by (rule sign_missing [rotated])
    then show ?thesis
      by (simp add: one setitem_twice)
  next
    case None
    then obtain a dt n v where l: "map_of (\<sigma> h) ''x-acs-action'' = Some a"
      "map_of (\<sigma> h) ''x-acs-date'' = Some dt"
      "map_of (\<sigma> h) ''x-acs-signature-nonce'' = Some n"
      "map_of (\<sigma> h) ''x-acs-version'' = Some v"
      using first_missing_None [of "\<sigma> h"] by blast
    let ?auth = "authorization creds
                   (canonical_request method (canonical_uri_of p) (query p)
                      (join nl (header_lines (netloc p) a ?bh dt n v)) ?bh)"
    let ?\<sigma>1 = "\<sigma>(h := setitem (setitem (\<sigma> h) ''x-acs-content-sha256'' ?bh)
                          ''Authorization'' ?auth)"
    have one: "sign lib creds method url h body \<sigma> = (Inr h, ?\<sigma>1)"
      by (rule sign_returns [where \<sigma>=\<sigma> and h=h, OF Inr l refl])
    have "sign lib creds method url h body ?\<sigma>1
          = (Inr h, ?\<sigma>1(h := setitem (setitem (?\<sigma>1 h) ''x-acs-content-sha256'' ?bh)
                               ''Authorization'' ?auth))"
      by (rule sign_returns [where \<sigma>="?\<sigma>1" and h=h, OF Inr _ _ _ _ refl])
         (simp_all add: map_of_setitem l)
    then show ?thesis
      by (simp add: one setitem_four_times)
  qed
qed

lemma sign_depends_on_four:
  assumes "fst (sign lib creds method url h body \<sigma>) = Inr h"
    and "\<forall>k\<in>set required. map_of (\<sigma>' h') k = map_of (\<sigma> h) k"
    and "ACCESS_KEY_ID creds' = ACCESS_KEY_ID creds"
    and "ACCESS_KEY_SECRET creds' = ACCESS_KEY_SECRET creds"
  shows "fst (sign lib creds' method url h' body \<sigma>') = Inr h'
       \<and> map_of (snd (sign lib creds' method url h' body \<sigma>') h') ''Authorization''
           = map_of (snd (sign lib creds method url h body \<sigma>) h) ''Authorization''"
proof -
  obtain p a dt n v where p: "urlparse lib url = Inr p"
    and l: "map_of (\<sigma> h) ''x-acs-action'' = Some a" "map_of (\<sigma> h) ''x-acs-date'' = Some dt"
      "map_of (\<sigma> h) ''x-acs-signature-nonce'' = Some n" "map_of (\<sigma> h) ''x-acs-version'' = Some v"
    using sign_returned [OF assms(1)] by blast
  have l': "map_of (\<sigma>' h') ''x-acs-action'' = Some a" "map_of (\<sigma>' h') ''x-acs-date'' = Some dt"
      "map_of (\<sigma>' h') ''x-acs-signature-nonce'' = Some n"
      "map_of (\<sigma>' h') ''x-acs-version'' = Some v"
    using assms(2) l by (simp_all add: required_def)
  let ?bh = "sha256_hex (encode (or_empty body))"
  let ?req = "canonical_request method (canonical_uri_of p) (query p)
                (join nl (header_lines (netloc p) a ?bh dt n v)) ?bh"
  have one: "sign lib creds method url h body \<sigma>
             = (Inr h, \<sigma>(h := setitem (setitem (\<sigma> h) ''x-acs-content-sha256'' ?bh)
                                 ''Authorization'' (authorization creds ?req)))"
    by (rule sign_returns [where \<sigma>=\<sigma> and h=h, OF p l refl])
  have two: "sign lib creds' method url h' body \<sigma>'
             = (Inr h', \<sigma>'(h' := setitem (setitem (\<sigma>' h') ''x-acs-content-sha256'' ?bh)
                                   ''Authorization'' (authorization creds' ?req)))"
    by (rule sign_returns [where \<sigma>=\<sigma>' and h=h', OF p l' refl])
  have "authorization creds' ?req = authorization creds ?req"
    using assms(3,4) by (simp add: authorization_def signature_def)
  then show ?thesis
    by (simp add: one two map_of_setitem)
qed

section \<open>Claims about sign\<close>

text \<open>
  C1. Let the URL parse (to \<open>p\<close>) and let the headers mapping hold the four entries
  \<open>x-acs-action\<close>, \<open>x-acs-date\<close>, \<open>x-acs-signature-nonce\<close> and \<open>x-acs-version\<close>.
  Then, for every method and every optional body, \<open>sign\<close> returns, and the value it
  stores under \<open>Authorization\<close> is the one the specification describes: the text
  \<open>ACS3-HMAC-SHA256 Credential=\<close>, the access key id, \<open>,SignedHeaders=\<close>, the six
  names joined by semicolons, \<open>,Signature=\<close> and the signature. The signature is the
  lowercase hexadecimal HMAC-SHA256, keyed by the access key secret, of
  \<open>ACS3-HMAC-SHA256\<close>, a newline and the hexadecimal SHA-256 of the canonical request;
  the canonical request is the newline-joined list of the method, the path (\<open>/\<close> when
  the path of the URL is empty), the raw query, the header block, an empty line, the six
  names and the body hash. The signature has 64 characters, all of them among
  \<open>0123456789abcdef\<close>.
\<close>

theorem sign_authorization:
  assumes "urlparse lib url = Inr p"
    and "map_of (\<sigma> h) ''x-acs-action'' = Some a"
    and "map_of (\<sigma> h) ''x-acs-date'' = Some dt"
    and "map_of (\<sigma> h) ''x-acs-signature-nonce'' = Some n"
    and "map_of (\<sigma> h) ''x-acs-version'' = Some v"
    and "bh = sha256_hex (encode (or_empty body))"
    and "creq = spec_canonical_request meth (path p) (query p)
                  (spec_header_block [netloc p, a, bh, dt, n, v]) bh"
    and "sg = spec_signature (ACCESS_KEY_SECRET creds) creq"
  shows "fst (sign lib creds meth url h body \<sigma>) = Inr h
       \<and> map_of (snd (sign lib creds meth url h body \<sigma>) h) ''Authorization''
           = Some (spec_authorization (ACCESS_KEY_ID creds) sg)
       \<and> is_hex64 sg"
proof -
  have "sign lib creds meth url h body \<sigma>
        = (Inr h,
           \<sigma>(h := setitem (setitem (\<sigma> h) ''x-acs-content-sha256'' bh) ''Authorization''
                    (spec_authorization (ACCESS_KEY_ID creds) sg)))"
    unfolding assms(7,8)
    by (rule sign_returns_spec [where \<sigma>=\<sigma> and h=h, OF assms(1-6)])
  then show ?thesis
    by (simp add: map_of_setitem assms(8) spec_signature_hex)
qed

theorem sign_authorization_witness:
  "urlparse sample_lib sample_url = Inr sample_parsed
   \<and> map_of (sample_store 0) ''x-acs-action'' = Some ''GetTaskInfo''
   \<and> map_of (sample_store 0) ''x-acs-date'' = Some ''2024-01-02T03:04:05Z''
   \<and> map_of (sample_store 0) ''x-acs-signature-nonce'' = Some ''abc123''
   \<and> map_of (sample_store 0) ''x-acs-version'' = Some ''2023-09-30''
   \<and> fst (sign sample_lib sample_creds ''GET'' sample_url 0 None sample_store) = Inr 0
   \<and> map_of (snd (sign sample_lib sample_creds ''GET'' sample_url 0 None sample_store) 0)
         ''Authorization''
       = Some (''ACS3-HMAC-SHA256 Credential=AKID,SignedHeaders=host;x-acs-action;x-acs-content-sha256;x-acs-date;x-acs-signature-nonce;x-acs-version,Signature=''
               @ spec_signature ''SECRET''
                   (''GET'' @ nl @ ''/'' @ nl @ ''TaskId=t-1'' @ nl
                    @ ''host:tingwu.cn-beijing.aliyuncs.com'' @ nl
                    @ ''x-acs-action:GetTaskInfo'' @ nl
                    @ ''x-acs-content-sha256:'' @ sha256_hex [] @ nl
                    @ ''x-acs-date:2024-01-02T03:04:05Z'' @ nl
                    @ ''x-acs-signature-nonce:abc123'' @ nl
                    @ ''x-acs-version:2023-09-30'' @ nl
                    @ nl
                    @ ''host;x-acs-action;x-acs-content-sha256;x-acs-date;x-acs-signature-nonce;x-acs-version''
                    @ nl @ sha256_hex []))"
proof -
  have l1: "map_of (sample_store 0) ''x-acs-action'' = Some ''GetTaskInfo''"
    by (simp add: sample_store_def sample_headers_def)
  have l2: "map_of (sample_store 0) ''x-acs-date'' = Some ''2024-01-02T03:04:05Z''"
    by (simp add: sample_store_def sample_headers_def)
  have l3: "map_of (sample_store 0) ''x-acs-signature-nonce'' = Some ''abc123''"
    by (simp add: sample_store_def sample_headers_def)
  have l4: "map_of (sample_store 0) ''x-acs-version'' = Some ''2023-09-30''"
    by (simp add: sample_store_def sample_headers_def)
  show ?thesis
    using sign_authorization [where \<sigma>=sample_store and h=0 and creds=sample_creds
        and meth="''GET''" and body=None, OF urlparse_sample l1 l2 l3 l4 refl refl refl]
      urlparse_sample l1 l2 l3 l4
    by (simp add: sample_parsed_def sample_creds_def or_empty_def encode_def
        spec_authorization_def spec_canonical_request_def spec_header_block_def
        spec_signed_names_def)
qed

text \<open>
  C6. Under the same precondition, the header block that \<open>sign\<close> builds (from the
  mapping with the content hash inserted) is the six lines \<open>host\<close>, \<open>x-acs-action\<close>,
  \<open>x-acs-content-sha256\<close>, \<open>x-acs-date\<close>, \<open>x-acs-signature-nonce\<close>, \<open>x-acs-version\<close>
  in this order, each \<open>name:value\<close>, joined by newlines. A mapping \<open>d'\<close> with the
  same entries in another insertion order gives the same block and the same
  \<open>Authorization\<close> value; the value after \<open>host:\<close> is the network location of the
  URL, also when the caller has put a \<open>host\<close> entry of any value \<open>hv\<close> into the mapping.
\<close>

theorem canonical_headers_fixed_order:
  assumes "urlparse lib url = Inr p"
    and "map_of d ''x-acs-action'' = Some a"
    and "map_of d ''x-acs-date'' = Some dt"
    and "map_of d ''x-acs-signature-nonce'' = Some n"
    and "map_of d ''x-acs-version'' = Some v"
    and "set d' = set d" and "distinct (map fst d)" and "distinct (map fst d')"
    and "block = ''host:'' @ netloc p @ nl
               @ ''x-acs-action:'' @ a @ nl
               @ ''x-acs-content-sha256:'' @ bh @ nl
               @ ''x-acs-date:'' @ dt @ nl
               @ ''x-acs-signature-nonce:'' @ n @ nl
               @ ''x-acs-version:'' @ v"
  shows "canonical_headers p (setitem d ''x-acs-content-sha256'' bh) bh = Inr block
       \<and> canonical_headers p (setitem d' ''x-acs-content-sha256'' bh) bh = Inr block
       \<and> canonical_headers p (setitem (setitem d ''host'' hv) ''x-acs-content-sha256'' bh) bh
           = Inr block
       \<and> map_of (snd (sign lib creds meth url h body (\<sigma>(h := d'))) h) ''Authorization''
           = map_of (snd (sign lib creds meth url h body (\<sigma>(h := d))) h) ''Authorization''"
proof -
  have same: "map_of d' = map_of d"
    by (rule same_entries_same_lookup [OF assms(6) assms(8) assms(7)])
  have lines: "join nl (header_lines (netloc p) a bh dt n v) = block"
    by (simp add: header_lines_def assms(9))
  have one: "canonical_headers p (setitem d ''x-acs-content-sha256'' bh) bh = Inr block"
    using canonical_headers_after_insert [OF assms(2-5), of p bh bh] lines by simp
  have two: "canonical_headers p (setitem d' ''x-acs-content-sha256'' bh) bh = Inr block"
    using canonical_headers_after_insert [of d' a dt n v p bh bh] assms(2-5) lines
    by (simp add: same)
  have three: "canonical_headers p (setitem (setitem d ''host'' hv) ''x-acs-content-sha256'' bh) bh
               = Inr block"
    using canonical_headers_after_insert [of "setitem d ''host'' hv" a dt n v p bh bh]
      assms(2-5) lines
    by (simp add: map_of_setitem)
  have "sign lib creds meth url h body (\<sigma>(h := d'))
        = (Inr h, (\<sigma>(h := d'))(h := setitem (setitem ((\<sigma>(h := d')) h) ''x-acs-content-sha256''
                      (sha256_hex (encode (or_empty body)))) ''Authorization''
                   (authorization creds
                      (canonical_request meth (canonical_uri_of p) (query p)
                         (join nl (header_lines (netloc p) a (sha256_hex (encode (or_empty body)))
                            dt n v)) (sha256_hex (encode (or_empty body)))))))"
    by (rule sign_returns [where \<sigma>="\<sigma>(h := d')" and h=h, OF assms(1)])
       (simp_all add: same assms(2-5))
  moreover have "sign lib creds meth url h body (\<sigma>(h := d))
        = (Inr h, (\<sigma>(h := d))(h := setitem (setitem ((\<sigma>(h := d)) h) ''x-acs-content-sha256''
                      (sha256_hex (encode (or_empty body)))) ''Authorization''
                   (authorization creds
                      (canonical_request meth (canonical_uri_of p) (query p)
                         (join nl (header_lines (netloc p) a (sha256_hex (encode (or_empty body)))
                            dt n v)) (sha256_hex (encode (or_empty body)))))))"
    by (rule sign_returns [where \<sigma>="\<sigma>(h := d)" and h=h, OF assms(1)])
       (simp_all add: assms(2-5))
  ultimately have four:
    "map_of (snd (sign lib creds meth url h body (\<sigma>(h := d'))) h) ''Authorization''
     = map_of (snd (sign lib creds meth url h body (\<sigma>(h := d))) h) ''Authorization''"
    by (simp add: map_of_setitem)
  from one two three four show ?thesis
    by (intro conjI)
qed

theorem canonical_headers_fixed_order_witness:
  "urlparse sample_lib sample_url = Inr sample_parsed
   \<and> set sample_reordered = set sample_headers
   \<and> distinct (map fst sample_headers) \<and> distinct (map fst sample_reordered)
   \<and> canonical_headers sample_parsed (setitem sample_reordered ''x-acs-content-sha256'' ''00'') ''00''
       = Inr (''host:tingwu.cn-beijing.aliyuncs.com'' @ nl
              @ ''x-acs-action:GetTaskInfo'' @ nl
              @ ''x-acs-content-sha256:00'' @ nl
              @ ''x-acs-date:2024-01-02T03:04:05Z'' @ nl
              @ ''x-acs-signature-nonce:abc123'' @ nl
              @ ''x-acs-version:2023-09-30'')
   \<and> canonical_headers sample_parsed
         (setitem (setitem sample_headers ''host'' ''evil.example'') ''x-acs-content-sha256'' ''00'')
         ''00''
       = canonical_headers sample_parsed (setitem sample_headers ''x-acs-content-sha256'' ''00'')
           ''00''"
proof -
  have l1: "map_of sample_headers ''x-acs-action'' = Some ''GetTaskInfo''"
    by (simp add: sample_headers_def)
  have l2: "map_of sample_headers ''x-acs-date'' = Some ''2024-01-02T03:04:05Z''"
    by (simp add: sample_headers_def)
  have l3: "map_of sample_headers ''x-acs-signature-nonce'' = Some ''abc123''"
    by (simp add: sample_headers_def)
  have l4: "map_of sample_headers ''x-acs-version'' = Some ''2023-09-30''"
    by (simp add: sample_headers_def)
  have s: "set sample_reordered = set sample_headers"
    by (auto simp: sample_reordered_def sample_headers_def)
  have d1: "distinct (map fst sample_headers)"
    by (simp add: sample_headers_def)
  have d2: "distinct (map fst sample_reordered)"
    by (simp add: sample_reordered_def)
  show ?thesis
    using canonical_headers_fixed_order [where bh="''00''" and hv="''evil.example''"
        and creds=sample_creds and meth="''GET''" and body=None and h=0 and \<sigma>=sample_store,
        OF urlparse_sample l1 l2 l3 l4 s d1 d2 refl]
      urlparse_sample s d1 d2
    by (simp add: sample_parsed_def)
qed

text \<open>
  C7. Signing is repeatable, and the signature depends on nothing but what the claim
  names. Signing again the mapping that a call of \<open>sign\<close> has already signed, with the
  same method, URL and body, ends as the first call did and leaves the store as the first
  call left it: the entries that \<open>sign\<close> itself has added do not enter the signature,
  and the \<open>Authorization\<close> value is the same. Moreover, when a call of \<open>sign\<close>
  returns, any call with the same method, URL and body on a mapping (at any reference
  \<open>h'\<close> of any store \<open>\<sigma>'\<close>) that agrees with the first on \<open>x-acs-action\<close>,
  \<open>x-acs-date\<close>, \<open>x-acs-signature-nonce\<close> and \<open>x-acs-version\<close>, under credentials
  with the same access key id and secret, returns as well and stores the same
  \<open>Authorization\<close> value, whatever else the mappings, the stores and the app key are.
  In the model \<open>sign\<close> produces no event.
\<close>

theorem sign_deterministic:
  "sign lib creds meth url h body (snd (sign lib creds meth url h body \<sigma>))
   = sign lib creds meth url h body \<sigma>
   \<and> (fst (sign lib creds meth url h body \<sigma>) = Inr h
        \<and> (\<forall>k\<in>set required. map_of (\<sigma>' h') k = map_of (\<sigma> h) k)
        \<and> ACCESS_KEY_ID creds' = ACCESS_KEY_ID creds
        \<and> ACCESS_KEY_SECRET creds' = ACCESS_KEY_SECRET creds
       \<longrightarrow> fst (sign lib creds' meth url h' body \<sigma>') = Inr h'
           \<and> map_of (snd (sign lib creds' meth url h' body \<sigma>') h') ''Authorization''
               = map_of (snd (sign lib creds meth url h body \<sigma>) h) ''Authorization'')"
proof (intro conjI impI)
  show "sign lib creds meth url h body (snd (sign lib creds meth url h body \<sigma>))
        = sign lib creds meth url h body \<sigma>"
    by (rule sign_again)
next
  assume a: "fst (sign lib creds meth url h body \<sigma>) = Inr h
        \<and> (\<forall>k\<in>set required. map_of (\<sigma>' h') k = map_of (\<sigma> h) k)
        \<and> ACCESS_KEY_ID creds' = ACCESS_KEY_ID creds
        \<and> ACCESS_KEY_SECRET creds' = ACCESS_KEY_SECRET creds"
  then have "fst (sign lib creds' meth url h' body \<sigma>') = Inr h'
       \<and> map_of (snd (sign lib creds' meth url h' body \<sigma>') h') ''Authorization''
           = map_of (snd (sign lib creds meth url h body \<sigma>) h) ''Authorization''"
    using sign_depends_on_four [where \<sigma>=\<sigma> and h=h and \<sigma>'=\<sigma>' and h'=h' and creds=creds
        and creds'=creds' and lib=lib and url=url and body=body]
    by blast
  then show "fst (sign lib creds' meth url h' body \<sigma>') = Inr h'"
    and "map_of (snd (sign lib creds' meth url h' body \<sigma>') h') ''Authorization''
         = map_of (snd (sign lib creds meth url h body \<sigma>) h) ''Authorization''"
    by simp_all
qed

theorem sign_deterministic_witness:
  "fst (sign sample_lib sample_creds ''GET'' sample_url 0 None sample_store) = Inr 0
   \<and> map_of (sample_other_store 3) ''x-acs-action'' = map_of (sample_store 0) ''x-acs-action''
   \<and> map_of (sample_other_store 3) ''x-acs-date'' = map_of (sample_store 0) ''x-acs-date''
   \<and> map_of (sample_other_store 3) ''x-acs-signature-nonce''
       = map_of (sample_store 0) ''x-acs-signature-nonce''
   \<and> map_of (sample_other_store 3) ''x-acs-version'' = map_of (sample_store 0) ''x-acs-version''
   \<and> map_of (sample_other_store 3) ''Authorization'' = Some ''stale''
   \<and> ACCESS_KEY_ID (sample_creds\<lparr>APP_KEY := ''other''\<rparr>) = ACCESS_KEY_ID sample_creds
   \<and> ACCESS_KEY_SECRET (sample_creds\<lparr>APP_KEY := ''other''\<rparr>) = ACCESS_KEY_SECRET sample_creds
   \<and> fst (sign sample_lib (sample_creds\<lparr>APP_KEY := ''other''\<rparr>) ''GET'' sample_url 3 None
            sample_other_store) = Inr 3
   \<and> map_of (snd (sign sample_lib (sample_creds\<lparr>APP_KEY := ''other''\<rparr>) ''GET'' sample_url 3 None
                    sample_other_store) 3) ''Authorization''
       = map_of (snd (sign sample_lib sample_creds ''GET'' sample_url 0 None sample_store) 0)
           ''Authorization''
   \<and> sign sample_lib sample_creds ''GET'' sample_url 0 None
         (snd (sign sample_lib sample_creds ''GET'' sample_url 0 None sample_store))
       = sign sample_lib sample_creds ''GET'' sample_url 0 None sample_store"
proof -
  have r: "fst (sign sample_lib sample_creds ''GET'' sample_url 0 None sample_store) = Inr 0"
    by (rule sign_succeeds [OF urlparse_sample])
       (simp_all add: sample_store_def sample_headers_def)
  have l1: "map_of (sample_other_store 3) ''x-acs-action''
            = map_of (sample_store 0) ''x-acs-action''"
    by (simp add: sample_other_store_def sample_reordered_def sample_store_def sample_headers_def)
  have l2: "map_of (sample_other_store 3) ''x-acs-date'' = map_of (sample_store 0) ''x-acs-date''"
    by (simp add: sample_other_store_def sample_reordered_def sample_store_def sample_headers_def)
  have l3: "map_of (sample_other_store 3) ''x-acs-signature-nonce''
            = map_of (sample_store 0) ''x-acs-signature-nonce''"
    by (simp add: sample_other_store_def sample_reordered_def sample_store_def sample_headers_def)
  have l4: "map_of (sample_other_store 3) ''x-acs-version''
            = map_of (sample_store 0) ''x-acs-version''"
    by (simp add: sample_other_store_def sample_reordered_def sample_store_def sample_headers_def)
  have stale: "map_of (sample_other_store 3) ''Authorization'' = Some ''stale''"
    by (simp add: sample_other_store_def)
  have all: "\<forall>k\<in>set required. map_of (sample_other_store 3) k = map_of (sample_store 0) k"
    using l1 l2 l3 l4 by (simp add: required_def)
  have i: "ACCESS_KEY_ID (sample_creds\<lparr>APP_KEY := ''other''\<rparr>) = ACCESS_KEY_ID sample_creds"
    by simp
  have k: "ACCESS_KEY_SECRET (sample_creds\<lparr>APP_KEY := ''other''\<rparr>)
           = ACCESS_KEY_SECRET sample_creds"
    by simp
  note t = sign_deterministic [where \<sigma>=sample_store and h=0 and \<sigma>'=sample_other_store and h'=3
      and lib=sample_lib and creds=sample_creds and creds'="sample_creds\<lparr>APP_KEY := ''other''\<rparr>"
      and meth="''GET''" and url=sample_url and body=None]
  have a: "fst (sign sample_lib (sample_creds\<lparr>APP_KEY := ''other''\<rparr>) ''GET'' sample_url 3 None
                  sample_other_store) = Inr 3
     \<and> map_of (snd (sign sample_lib (sample_creds\<lparr>APP_KEY := ''other''\<rparr>) ''GET'' sample_url 3 None
                      sample_other_store) 3) ''Authorization''
         = map_of (snd (sign sample_lib sample_creds ''GET'' sample_url 0 None sample_store) 0)
             ''Authorization''"
    using t r all i k by blast
  have b: "sign sample_lib sample_creds ''GET'' sample_url 0 None
             (snd (sign sample_lib sample_creds ''GET'' sample_url 0 None sample_store))
           = sign sample_lib sample_creds ''GET'' sample_url 0 None sample_store"
    using t by blast
  show ?thesis
    using r l1 l2 l3 l4 stale i k a b by (simp only: simp_thms)
qed

text \<open>
  C9. Under the precondition of C1, \<open>sign\<close> returns the reference it was given; the
  keys of the mapping behind it are the former keys together with
  \<open>x-acs-content-sha256\<close> and \<open>Authorization\<close>; every other key has the value it had
  before the call; and no other mapping of the store has changed.
\<close>

theorem sign_frame:
  assumes "urlparse lib url = Inr p"
    and "map_of (\<sigma> h) ''x-acs-action'' = Some a"
    and "map_of (\<sigma> h) ''x-acs-date'' = Some dt"
    and "map_of (\<sigma> h) ''x-acs-signature-nonce'' = Some n"
    and "map_of (\<sigma> h) ''x-acs-version'' = Some v"
  shows "fst (sign lib creds meth url h body \<sigma>) = Inr h
       \<and> set (map fst (snd (sign lib creds meth url h body \<sigma>) h))
           = set (map fst (\<sigma> h)) \<union> {''x-acs-content-sha256'', ''Authorization''}
       \<and> (\<forall>k. k \<noteq> ''x-acs-content-sha256'' \<and> k \<noteq> ''Authorization''
              \<longrightarrow> map_of (snd (sign lib creds meth url h body \<sigma>) h) k = map_of (\<sigma> h) k)
       \<and> (\<forall>r. r \<noteq> h \<longrightarrow> snd (sign lib creds meth url h body \<sigma>) r = \<sigma> r)"
proof -
  have "sign lib creds meth url h body \<sigma>
        = (Inr h,
           \<sigma>(h := setitem (setitem (\<sigma> h) ''x-acs-content-sha256''
                              (sha256_hex (encode (or_empty body)))) ''Authorization''
                    (authorization creds
                       (canonical_request meth (canonical_uri_of p) (query p)
                          (join nl (header_lines (netloc p) a
                             (sha256_hex (encode (or_empty body))) dt n v))
                          (sha256_hex (encode (or_empty body)))))))"
    by (rule sign_returns [where \<sigma>=\<sigma> and h=h, OF assms refl])
  then show ?thesis
    by (auto simp: map_of_setitem keys_setitem simp del: set_map)
qed

theorem sign_frame_witness:
  "urlparse sample_lib sample_url = Inr sample_parsed
   \<and> map_of (sample_store 0) ''x-acs-action'' = Some ''GetTaskInfo''
   \<and> map_of (sample_store 0) ''x-acs-date'' = Some ''2024-01-02T03:04:05Z''
   \<and> map_of (sample_store 0) ''x-acs-signature-nonce'' = Some ''abc123''
   \<and> map_of (sample_store 0) ''x-acs-version'' = Some ''2023-09-30''
   \<and> fst (sign sample_lib sample_creds ''GET'' sample_url 0 None sample_store) = Inr 0
   \<and> set (map fst (snd (sign sample_lib sample_creds ''GET'' sample_url 0 None sample_store) 0))
       = {''x-acs-action'', ''x-acs-version'', ''x-acs-date'', ''x-acs-signature-nonce'',
          ''x-acs-content-sha256'', ''Authorization''}
   \<and> map_of (snd (sign sample_lib sample_creds ''GET'' sample_url 0 None sample_store) 0)
         ''x-acs-date'' = Some ''2024-01-02T03:04:05Z''
   \<and> snd (sign sample_lib sample_creds ''GET'' sample_url 0 None sample_store) 1 = []"
proof -
  have l1: "map_of (sample_store 0) ''x-acs-action'' = Some ''GetTaskInfo''"
    by (simp add: sample_store_def sample_headers_def)
  have l2: "map_of (sample_store 0) ''x-acs-date'' = Some ''2024-01-02T03:04:05Z''"
    by (simp add: sample_store_def sample_headers_def)
  have l3: "map_of (sample_store 0) ''x-acs-signature-nonce'' = Some ''abc123''"
    by (simp add: sample_store_def sample_headers_def)
  have l4: "map_of (sample_store 0) ''x-acs-version'' = Some ''2023-09-30''"
    by (simp add: sample_store_def sample_headers_def)
  note t = sign_frame [where \<sigma>=sample_store and h=0 and creds=sample_creds
      and meth="''GET''" and body=None, OF urlparse_sample l1 l2 l3 l4]
  have a: "fst (sign sample_lib sample_creds ''GET'' sample_url 0 None sample_store) = Inr 0"
    using t by blast
  have b: "set (map fst (snd (sign sample_lib sample_creds ''GET'' sample_url 0 None sample_store) 0))
           = set (map fst (sample_store 0)) \<union> {''x-acs-content-sha256'', ''Authorization''}"
    using t by blast
  have c: "map_of (snd (sign sample_lib sample_creds ''GET'' sample_url 0 None sample_store) 0)
             ''x-acs-date'' = map_of (sample_store 0) ''x-acs-date''"
    using t by simp
  have d: "snd (sign sample_lib sample_creds ''GET'' sample_url 0 None sample_store) 1
           = sample_store 1"
    using t by simp
  have e: "set (map fst (sample_store 0)) \<union> {''x-acs-content-sha256'', ''Authorization''}
           = {''x-acs-action'', ''x-acs-version'', ''x-acs-date'', ''x-acs-signature-nonce'',
              ''x-acs-content-sha256'', ''Authorization''}"
    by (auto simp: sample_store_def sample_headers_def)
  have f: "sample_store 1 = []"
    by (simp add: sample_store_def)
  show ?thesis
    using urlparse_sample l1 l2 l3 l4 a b c d e f by (simp only: simp_thms)
qed

text \<open>
  C10, as the claim is stated, fails on the code when the URL does not parse: \<open>sign\<close>
  calls \<open>urlparse\<close> first, and for \<open>https://h]/a\<close> that call raises \<open>ValueError\<close>.
  With all four headers present \<open>sign\<close> then does not return, and with one missing it
  raises no \<open>KeyError\<close> and inserts nothing.
\<close>

theorem sign_bad_url_raises_value_error:
  "list_all (\<lambda>k. map_of (sample_store 0) k \<noteq> None) required
   \<and> sign sample_lib sample_creds ''GET'' ''https://h]/a'' 0 None sample_store
       = (Inl ValueError, sample_store)
   \<and> \<not> list_all (\<lambda>k. map_of ((sample_store(0 := sample_incomplete)) 0) k \<noteq> None) required
   \<and> sign sample_lib sample_creds ''GET'' ''https://h]/a'' 0 None
         (sample_store(0 := sample_incomplete))
       = (Inl ValueError, sample_store(0 := sample_incomplete))"
proof -
  have bad: "urlparse sample_lib ''https://h]/a'' = Inl ValueError"
    by (simp add: urlparse_def urlsplit_def split_scheme_def splitnetloc_def
        check_netloc_def split_once_def is_c0_or_space_def is_unsafe_def is_ascii_alpha_def
        scheme_chars_def lower_def uses_params_def is_delim_def Let_def)
  have full: "list_all (\<lambda>k. map_of (sample_store 0) k \<noteq> None) required"
    by (simp add: sample_store_def sample_headers_def required_def)
  have part: "\<not> list_all (\<lambda>k. map_of ((sample_store(0 := sample_incomplete)) 0) k \<noteq> None) required"
    by (simp add: sample_incomplete_def required_def)
  show ?thesis
    using full part by (simp add: sign_unparsable [OF bad])
qed

text \<open>
  C10, amended. Let the URL parse. When the mapping holds all four of \<open>x-acs-action\<close>,
  \<open>x-acs-date\<close>, \<open>x-acs-signature-nonce\<close> and \<open>x-acs-version\<close>, \<open>sign\<close> returns
  the reference. When it lacks one of them, \<open>sign\<close> raises \<open>KeyError\<close> for the first
  one that is missing, in the order of the lookups, and leaves the mapping with
  \<open>x-acs-content-sha256\<close> inserted and nothing else changed.
\<close>

theorem sign_key_error:
  assumes "urlparse lib url = Inr p"
  shows "(list_all (\<lambda>k. map_of (\<sigma> h) k \<noteq> None) required
            \<longrightarrow> fst (sign lib creds meth url h body \<sigma>) = Inr h)
       \<and> (\<not> list_all (\<lambda>k. map_of (\<sigma> h) k \<noteq> None) required
            \<longrightarrow> (\<exists>k. first_missing (\<sigma> h) = Some k
                     \<and> k \<in> set required \<and> map_of (\<sigma> h) k = None
                     \<and> sign lib creds meth url h body \<sigma>
                         = (Inl (KeyError k),
                            \<sigma>(h := setitem (\<sigma> h) ''x-acs-content-sha256''
                                     (sha256_hex (encode (or_empty body)))))))"
proof (intro conjI impI)
  assume "list_all (\<lambda>k. map_of (\<sigma> h) k \<noteq> None) required"
  then obtain a dt n v where "map_of (\<sigma> h) ''x-acs-action'' = Some a"
    and "map_of (\<sigma> h) ''x-acs-date'' = Some dt"
    and "map_of (\<sigma> h) ''x-acs-signature-nonce'' = Some n"
    and "map_of (\<sigma> h) ''x-acs-version'' = Some v"
    by (auto simp: required_def)
  then show "fst (sign lib creds meth url h body \<sigma>) = Inr h"
    by (rule sign_succeeds [OF assms])
next
  assume "\<not> list_all (\<lambda>k. map_of (\<sigma> h) k \<noteq> None) required"
  then obtain k where k: "first_missing (\<sigma> h) = Some k"
    by (cases "first_missing (\<sigma> h)") (auto simp: first_missing_def find_None_iff list_all_iff)
  then have "k \<in> set required" and "map_of (\<sigma> h) k = None"
    by (auto simp: first_missing_def find_Some_iff)
  moreover have "sign lib creds meth url h body \<sigma>
        = (Inl (KeyError k),
           \<sigma>(h := setitem (\<sigma> h) ''x-acs-content-sha256'' (sha256_hex (encode (or_empty body)))))"
    using assms k by (rule sign_missing)
  ultimately show "\<exists>k. first_missing (\<sigma> h) = Some k
                     \<and> k \<in> set required \<and> map_of (\<sigma> h) k = None
                     \<and> sign lib creds meth url h body \<sigma>
                         = (Inl (KeyError k),
                            \<sigma>(h := setitem (\<sigma> h) ''x-acs-content-sha256''
                                     (sha256_hex (encode (or_empty body)))))"
    using k by blast
qed

theorem sign_key_error_witness:
  "urlparse sample_lib sample_url = Inr sample_parsed
   \<and> list_all (\<lambda>k. map_of (sample_store 0) k \<noteq> None) required
   \<and> fst (sign sample_lib sample_creds ''GET'' sample_url 0 None sample_store) = Inr 0
   \<and> \<not> list_all (\<lambda>k. map_of ((sample_store(0 := sample_incomplete)) 0) k \<noteq> None) required
   \<and> sign sample_lib sample_creds ''GET'' sample_url 0 None (sample_store(0 := sample_incomplete))
       = (Inl (KeyError ''x-acs-date''),
          sample_store(0 := sample_incomplete @ [(''x-acs-content-sha256'', sha256_hex [])]))"
proof -
  have full: "list_all (\<lambda>k. map_of (sample_store 0) k \<noteq> None) required"
    by (simp add: sample_store_def sample_headers_def required_def)
  have part: "\<not> list_all (\<lambda>k. map_of ((sample_store(0 := sample_incomplete)) 0) k \<noteq> None) required"
    by (simp add: sample_incomplete_def required_def)
  have a: "fst (sign sample_lib sample_creds ''GET'' sample_url 0 None sample_store) = Inr 0"
    using sign_key_error [OF urlparse_sample, of sample_store 0 sample_creds "''GET''" None] full
    by blast
  have "\<exists>k. first_missing ((sample_store(0 := sample_incomplete)) 0) = Some k
          \<and> k \<in> set required \<and> map_of ((sample_store(0 := sample_incomplete)) 0) k = None
          \<and> sign sample_lib sample_creds ''GET'' sample_url 0 None
               (sample_store(0 := sample_incomplete))
             = (Inl (KeyError k),
                (sample_store(0 := sample_incomplete))
                  (0 := setitem ((sample_store(0 := sample_incomplete)) 0) ''x-acs-content-sha256''
                          (sha256_hex (encode (or_empty None)))))"
    using sign_key_error [OF urlparse_sample, of "sample_store(0 := sample_incomplete)" 0
        sample_creds "''GET''" None] part
    by blast
  moreover have "first_missing ((sample_store(0 := sample_incomplete)) 0) = Some ''x-acs-date''"
    by (simp add: first_missing_def required_def sample_incomplete_def)
  moreover have "setitem sample_incomplete ''x-acs-content-sha256'' (sha256_hex [])
                 = sample_incomplete @ [(''x-acs-content-sha256'', sha256_hex [])]"
    by (simp add: sample_incomplete_def)
  ultimately have b: "sign sample_lib sample_creds ''GET'' sample_url 0 None
                        (sample_store(0 := sample_incomplete))
       = (Inl (KeyError ''x-acs-date''),
          sample_store(0 := sample_incomplete @ [(''x-acs-content-sha256'', sha256_hex [])]))"
    by (auto simp: or_empty_def encode_def)
  show ?thesis
    using urlparse_sample full part a b by (simp only: simp_thms)
qed

section \<open>Claims about the task client\<close>

lemma dec_403: "dec 403 = ''403''"
  by code_simp

lemma poll_loop_numeral:
  "snd (poll_loop lib creds w task_id (numeral v) n)
   = (case verdict (urlopen w n) of
        Break \<Rightarrow> Exit 0
      | Raise e \<Rightarrow> Uncaught e
      | Continue \<Rightarrow> snd (poll_loop lib creds w task_id (pred_numeral v) (Suc n)))"
  by (simp only: numeral_eq_Suc poll_loop_Suc)

lemma sample_verdicts:
  "verdict (status_reply ''PENDING'') = Continue"
  "verdict (HTTPError 500 (Some ''busy'')) = Continue"
  "verdict (Success (JObj [(''Data'', JObj [])])) = Continue"
  "verdict (status_reply ''COMPLETED'') = Break"
  "verdict (status_reply ''FAILED'') = Break"
  "verdict (Failure URLError) = Raise URLError"
  by (simp_all add: verdict_def task_status_def status_reply_def)

text \<open>
  C3, as the specification states it, fails on the code: \<open>get_task\<close> catches only
  \<open>HTTPError\<close>, so a transport failure of a poll is not a reason to continue. In
  the run below the job is created and the first poll ends in \<open>URLError\<close>; the process
  ends with that exception uncaught.
\<close>

theorem poll_transport_failure_ends_the_run:
  "snd (main sample_lib sample_creds (replies [created, Failure URLError]) 5 sample_argv)
   = Uncaught URLError"
proof -
  have "snd (main sample_lib sample_creds (replies [created, Failure URLError]) 5 sample_argv)
        = snd (poll_loop sample_lib sample_creds (replies [created, Failure URLError])
                 (JStr ''t-1'') 5 1)"
    by (simp add: main_enters_loop [where kvs="[(''Data'', JObj [(''TaskId'', JStr ''t-1'')])]"
          and kvs'="[(''TaskId'', JStr ''t-1'')]" and task_id="JStr ''t-1''"]
        sample_argv_def replies_def created_def)
  also have "\<dots> = Uncaught URLError"
    by (simp add: poll_loop_numeral sample_verdicts replies_def del: poll_loop.simps)
  finally show ?thesis .
qed

text \<open>
  C3, amended. Every pass of the loop first sleeps 10 seconds and then sends one GET
  request whose URL carries the job identifier as the query parameter \<open>TaskId\<close>. With
  \<open>task_status j\<close> for \<open>j.get("Data", {}).get("TaskStatus")\<close>:

  \<^item> the pass ends the loop normally exactly when the response is a truthy JSON value
    whose status is \<open>COMPLETED\<close> or \<open>FAILED\<close>;
  \<^item> the loop goes on exactly when the poll ends in an HTTP error status whose body
    decodes (\<open>get_task\<close> returns \<open>None\<close>), or the response is a falsy JSON value, or
    its status is any other value, \<open>None\<close> for a missing status included;
  \<^item> the pass raises exactly when the poll fails otherwise (a transport failure
    propagates), the body of an HTTP error is not UTF-8, the response is not JSON, or the
    response or its \<open>Data\<close> has no \<open>get\<close>.

  Consequently: as long as the polls are of the second kind the loop is still running,
  after \<open>k\<close> such polls and \<open>k\<close> sleeps for every \<open>k\<close>; the first poll of the
  first kind ends the process with status 0, and the first poll of the third kind ends it
  with the exception.
\<close>

theorem polling_loop:
  "(\<exists>hdrs. filter (\<lambda>e. \<not> is_print e) (fst (loop_body lib creds rd r task_id))
            = [Sleep 10,
               Urlopen ''GET'' (endpoint @ ''?TaskId='' @ format lib task_id) hdrs None 30])
   \<and> (snd (loop_body lib creds rd r task_id) = Break
        \<longleftrightarrow> (\<exists>j. r = Success j \<and> truthy j
                 \<and> (task_status j = Inr (JStr ''COMPLETED'')
                      \<or> task_status j = Inr (JStr ''FAILED''))))
   \<and> (snd (loop_body lib creds rd r task_id) = Continue
        \<longleftrightarrow> (\<exists>code msg. r = HTTPError code (Some msg))
            \<or> (\<exists>j. r = Success j
                  \<and> (\<not> truthy j
                       \<or> (\<exists>s. task_status j = Inr s \<and> s \<noteq> JStr ''COMPLETED''
                                \<and> s \<noteq> JStr ''FAILED''))))
   \<and> (snd (loop_body lib creds rd r task_id) = Raise e
        \<longleftrightarrow> r = Failure e \<or> (r = Undecodable \<and> e = ValueError)
            \<or> ((\<exists>code. r = HTTPError code None) \<and> e = UnicodeDecodeError)
            \<or> (\<exists>j. r = Success j \<and> truthy j \<and> task_status j = Inl e))
   \<and> ((\<forall>i<k. snd (loop_body lib creds (clock w (n + i)) (urlopen w (n + i)) task_id) = Continue)
        \<longrightarrow> snd (poll_loop lib creds w task_id k n) = Running
            \<and> length (filter (\<lambda>e. e = Sleep 10) (fst (poll_loop lib creds w task_id k n))) = k)
   \<and> ((\<forall>i<k. snd (loop_body lib creds (clock w (n + i)) (urlopen w (n + i)) task_id) = Continue)
         \<and> snd (loop_body lib creds (clock w (n + k)) (urlopen w (n + k)) task_id) = Break
         \<and> k < fuel
        \<longrightarrow> snd (poll_loop lib creds w task_id fuel n) = Exit 0)
   \<and> ((\<forall>i<k. snd (loop_body lib creds (clock w (n + i)) (urlopen w (n + i)) task_id) = Continue)
         \<and> snd (loop_body lib creds (clock w (n + k)) (urlopen w (n + k)) task_id) = Raise e
         \<and> k < fuel
        \<longrightarrow> snd (poll_loop lib creds w task_id fuel n) = Uncaught e)
   \<and> task_status (JObj []) = Inr JNull
   \<and> task_status (JObj [(''Data'', JObj [])]) = Inr JNull
   \<and> task_status (JObj [(''Data'', JNull)]) = Inl AttributeError"
proof (intro conjI)
  show "\<exists>hdrs. filter (\<lambda>e. \<not> is_print e) (fst (loop_body lib creds rd r task_id))
            = [Sleep 10,
               Urlopen ''GET'' (endpoint @ ''?TaskId='' @ format lib task_id) hdrs None 30]"
    by (simp add: loop_body_requests get_task_request_def)
next
  show "snd (loop_body lib creds rd r task_id) = Break
        \<longleftrightarrow> (\<exists>j. r = Success j \<and> truthy j
                 \<and> (task_status j = Inr (JStr ''COMPLETED'')
                      \<or> task_status j = Inr (JStr ''FAILED'')))"
    unfolding loop_body_verdict
    by (cases r) (auto simp: verdict_def split: sum.splits option.splits)
next
  show "snd (loop_body lib creds rd r task_id) = Continue
        \<longleftrightarrow> (\<exists>code msg. r = HTTPError code (Some msg))
            \<or> (\<exists>j. r = Success j
                  \<and> (\<not> truthy j
                       \<or> (\<exists>s. task_status j = Inr s \<and> s \<noteq> JStr ''COMPLETED''
                                \<and> s \<noteq> JStr ''FAILED'')))"
    unfolding loop_body_verdict
    by (cases r) (auto simp: verdict_def split: sum.splits option.splits)
next
  show "snd (loop_body lib creds rd r task_id) = Raise e
        \<longleftrightarrow> r = Failure e \<or> (r = Undecodable \<and> e = ValueError)
            \<or> ((\<exists>code. r = HTTPError code None) \<and> e = UnicodeDecodeError)
            \<or> (\<exists>j. r = Success j \<and> truthy j \<and> task_status j = Inl e)"
    unfolding loop_body_verdict
    by (cases r) (auto simp: verdict_def split: sum.splits option.splits)
next
  show "(\<forall>i<k. snd (loop_body lib creds (clock w (n + i)) (urlopen w (n + i)) task_id) = Continue)
        \<longrightarrow> snd (poll_loop lib creds w task_id k n) = Running
            \<and> length (filter (\<lambda>e. e = Sleep 10) (fst (poll_loop lib creds w task_id k n))) = k"
    unfolding loop_body_verdict by (intro impI) (rule poll_loop_running)
next
  show "(\<forall>i<k. snd (loop_body lib creds (clock w (n + i)) (urlopen w (n + i)) task_id) = Continue)
         \<and> snd (loop_body lib creds (clock w (n + k)) (urlopen w (n + k)) task_id) = Break
         \<and> k < fuel
        \<longrightarrow> snd (poll_loop lib creds w task_id fuel n) = Exit 0"
    unfolding loop_body_verdict
    using poll_loop_stops [of k w n fuel lib creds task_id] by simp
next
  show "(\<forall>i<k. snd (loop_body lib creds (clock w (n + i)) (urlopen w (n + i)) task_id) = Continue)
         \<and> snd (loop_body lib creds (clock w (n + k)) (urlopen w (n + k)) task_id) = Raise e
         \<and> k < fuel
        \<longrightarrow> snd (poll_loop lib creds w task_id fuel n) = Uncaught e"
    unfolding loop_body_verdict
    using poll_loop_stops [of k w n fuel lib creds task_id] by simp
next
  show "task_status (JObj []) = Inr JNull"
    by (simp add: task_status_def)
next
  show "task_status (JObj [(''Data'', JObj [])]) = Inr JNull"
    by (simp add: task_status_def)
next
  show "task_status (JObj [(''Data'', JNull)]) = Inl AttributeError"
    by (simp add: task_status_def)
qed

theorem polling_loop_witness:
  "snd (loop_body sample_lib sample_creds (clock sample_world 1) (urlopen sample_world 1)
         (JStr ''t-1'')) = Continue
   \<and> snd (loop_body sample_lib sample_creds (clock sample_world 2) (urlopen sample_world 2)
            (JStr ''t-1'')) = Continue
   \<and> snd (loop_body sample_lib sample_creds (clock sample_world 3) (urlopen sample_world 3)
            (JStr ''t-1'')) = Continue
   \<and> snd (loop_body sample_lib sample_creds (clock sample_world 4) (urlopen sample_world 4)
            (JStr ''t-1'')) = Break
   \<and> (3::nat) < 10
   \<and> snd (poll_loop sample_lib sample_creds sample_world (JStr ''t-1'') 3 1) = Running
   \<and> length (filter (\<lambda>e. e = Sleep 10)
               (fst (poll_loop sample_lib sample_creds sample_world (JStr ''t-1'') 3 1))) = 3
   \<and> snd (poll_loop sample_lib sample_creds sample_world (JStr ''t-1'') 10 1) = Exit 0
   \<and> \<not> truthy JNull
   \<and> snd (loop_body sample_lib sample_creds sample_reading (Success JNull) (JStr ''t-1''))
       = Continue
   \<and> snd (loop_body sample_lib sample_creds sample_reading (HTTPError 502 None) (JStr ''t-1''))
       = Raise UnicodeDecodeError"
proof -
  let ?pass = "\<lambda>i. snd (loop_body sample_lib sample_creds (clock sample_world (1 + i))
                         (urlopen sample_world (1 + i)) (JStr ''t-1''))"
  have cont: "\<forall>i<3. ?pass i = Continue"
  proof (intro allI impI)
    fix i :: nat
    assume "i < 3"
    then consider "i = 0" | "i = 1" | "i = 2"
      by linarith
    then show "?pass i = Continue"
      by cases (simp_all add: loop_body_verdict sample_world_def replies_def sample_verdicts)
  qed
  have stop: "?pass 3 = Break"
    by (simp add: loop_body_verdict sample_world_def replies_def sample_verdicts)
  have p1: "snd (loop_body sample_lib sample_creds (clock sample_world 1) (urlopen sample_world 1)
                   (JStr ''t-1'')) = Continue"
    using cont [rule_format, of 0] by simp
  have p2: "snd (loop_body sample_lib sample_creds (clock sample_world 2) (urlopen sample_world 2)
                   (JStr ''t-1'')) = Continue"
    using cont [rule_format, of 1] by (simp add: numeral_2_eq_2)
  have p3: "snd (loop_body sample_lib sample_creds (clock sample_world 3) (urlopen sample_world 3)
                   (JStr ''t-1'')) = Continue"
    using cont [rule_format, of 2] by (simp add: numeral_3_eq_3)
  have p4: "snd (loop_body sample_lib sample_creds (clock sample_world 4) (urlopen sample_world 4)
                   (JStr ''t-1'')) = Break"
    using stop by simp
  have fuel: "(3::nat) < 10"
    by simp
  note t = polling_loop [where lib=sample_lib and creds=sample_creds and w=sample_world
      and task_id="JStr ''t-1''" and k=3 and n=1 and fuel=10 and rd=sample_reading
      and r="Success JNull"]
  have running: "snd (poll_loop sample_lib sample_creds sample_world (JStr ''t-1'') 3 1) = Running
    \<and> length (filter (\<lambda>e. e = Sleep 10)
                (fst (poll_loop sample_lib sample_creds sample_world (JStr ''t-1'') 3 1))) = 3"
    using t cont by blast
  have ended: "snd (poll_loop sample_lib sample_creds sample_world (JStr ''t-1'') 10 1) = Exit 0"
    using t cont stop fuel by blast
  have falsy: "\<not> truthy JNull"
    by simp
  have empty: "snd (loop_body sample_lib sample_creds sample_reading (Success JNull) (JStr ''t-1''))
               = Continue"
    using t falsy by blast
  have garbled: "snd (loop_body sample_lib sample_creds sample_reading (HTTPError 502 None)
                        (JStr ''t-1'')) = Raise UnicodeDecodeError"
    using polling_loop [where lib=sample_lib and creds=sample_creds and rd=sample_reading
        and r="HTTPError 502 None" and task_id="JStr ''t-1''" and e=UnicodeDecodeError]
    by blast
  show ?thesis
    using p1 p2 p3 p4 fuel running ended falsy empty garbled by (simp only: simp_thms)
qed

text \<open>
  C4, as the specification states it, fails on the code: \<open>create_task\<close> does not
  return the job identifier but the whole decoded response; it is the main block that
  looks the identifier up under \<open>Data\<close> and \<open>TaskId\<close>.
\<close>

theorem create_task_returns_the_response:
  "snd (create_task sample_lib sample_creds sample_reading created ''https://example.com/a.mp3'')
   = Inr (JObj [(''Data'', JObj [(''TaskId'', JStr ''t-1'')])])
   \<and> snd (create_task sample_lib sample_creds sample_reading created ''https://example.com/a.mp3'')
       \<noteq> Inr (JStr ''t-1'')"
  by (simp add: create_task_sends snd_send created_def)

text \<open>
  C4, amended. On a 2xx response \<open>create_task\<close> sends one POST request to the endpoint
  and returns the decoded JSON response; when that response is an object with an object
  \<open>Data\<close> holding \<open>TaskId\<close>, the main block prints it, takes that value as the job
  identifier and enters the loop with it. On an HTTP error status \<open>create_task\<close>
  sends the one request and prints the status code; when the body of the response
  decodes, it prints the body and returns \<open>None\<close>, and the main block ends with status
  0; when the body is not UTF-8, \<open>UnicodeDecodeError\<close> leaves \<open>create_task\<close> and
  ends the process. In both cases these are all the events of the run: there is no
  sleep and no poll.
\<close>

theorem create_task_result:
  "(\<exists>hdrs. create_task_request lib creds rd file_url
            = Urlopen ''POST'' endpoint hdrs
                (Some (encode (create_task_body creds file_url (epoch rd)))) 30)
   \<and> (r = Success j
        \<longrightarrow> create_task lib creds rd r file_url
            = ([create_task_request lib creds rd file_url], Inr j))
   \<and> (r = HTTPError code (Some msg)
        \<longrightarrow> create_task lib creds rd r file_url
            = ([create_task_request lib creds rd file_url,
                Print (''HTTP Error: '' @ dec code), Print msg], Inr JNull))
   \<and> (r = HTTPError code None
        \<longrightarrow> create_task lib creds rd r file_url
            = ([create_task_request lib creds rd file_url,
                Print (''HTTP Error: '' @ dec code)], Inl UnicodeDecodeError))
   \<and> (2 \<le> length argv \<and> urlopen w 0 = Success (JObj kvs)
         \<and> map_of kvs ''Data'' = Some (JObj kvs') \<and> map_of kvs' ''TaskId'' = Some task_id
        \<longrightarrow> main lib creds w fuel argv
            = ([Print (''Creating task for: '' @ argv ! 1),
                create_task_request lib creds (clock w 0) (argv ! 1),
                PrintJson (JObj kvs),
                Print (nl @ ''Task ID: '' @ format lib task_id),
                Print ''Polling for result...'']
               @ fst (poll_loop lib creds w task_id fuel 1),
               snd (poll_loop lib creds w task_id fuel 1)))
   \<and> (2 \<le> length argv \<and> urlopen w 0 = HTTPError code (Some msg)
        \<longrightarrow> main lib creds w fuel argv
            = ([Print (''Creating task for: '' @ argv ! 1),
                create_task_request lib creds (clock w 0) (argv ! 1),
                Print (''HTTP Error: '' @ dec code), Print msg], Exit 0))
   \<and> (2 \<le> length argv \<and> urlopen w 0 = HTTPError code None
        \<longrightarrow> main lib creds w fuel argv
            = ([Print (''Creating task for: '' @ argv ! 1),
                create_task_request lib creds (clock w 0) (argv ! 1),
                Print (''HTTP Error: '' @ dec code)], Uncaught UnicodeDecodeError))"
proof (intro conjI impI)
  show "\<exists>hdrs. create_task_request lib creds rd file_url
            = Urlopen ''POST'' endpoint hdrs
                (Some (encode (create_task_body creds file_url (epoch rd)))) 30"
    by (simp add: create_task_request_def)
next
  assume "r = Success j"
  then show "create_task lib creds rd r file_url
             = ([create_task_request lib creds rd file_url], Inr j)"
    by (simp add: create_task_sends send_def)
next
  assume "r = HTTPError code (Some msg)"
  then show "create_task lib creds rd r file_url
             = ([create_task_request lib creds rd file_url,
                 Print (''HTTP Error: '' @ dec code), Print msg], Inr JNull)"
    by (simp add: create_task_sends send_def)
next
  assume "r = HTTPError code None"
  then show "create_task lib creds rd r file_url
             = ([create_task_request lib creds rd file_url,
                 Print (''HTTP Error: '' @ dec code)], Inl UnicodeDecodeError)"
    by (simp add: create_task_sends send_def)
next
  assume "2 \<le> length argv \<and> urlopen w 0 = Success (JObj kvs)
         \<and> map_of kvs ''Data'' = Some (JObj kvs') \<and> map_of kvs' ''TaskId'' = Some task_id"
  then show "main lib creds w fuel argv
            = ([Print (''Creating task for: '' @ argv ! 1),
                create_task_request lib creds (clock w 0) (argv ! 1),
                PrintJson (JObj kvs),
                Print (nl @ ''Task ID: '' @ format lib task_id),
                Print ''Polling for result...'']
               @ fst (poll_loop lib creds w task_id fuel 1),
               snd (poll_loop lib creds w task_id fuel 1))"
    using main_enters_loop [of argv w kvs kvs' task_id lib creds fuel] by blast
next
  assume "2 \<le> length argv \<and> urlopen w 0 = HTTPError code (Some msg)"
  then show "main lib creds w fuel argv
            = ([Print (''Creating task for: '' @ argv ! 1),
                create_task_request lib creds (clock w 0) (argv ! 1),
                Print (''HTTP Error: '' @ dec code), Print msg], Exit 0)"
    using main_create_http_error [of argv w code msg lib creds fuel] by blast
next
  assume "2 \<le> length argv \<and> urlopen w 0 = HTTPError code None"
  then show "main lib creds w fuel argv
            = ([Print (''Creating task for: '' @ argv ! 1),
                create_task_request lib creds (clock w 0) (argv ! 1),
                Print (''HTTP Error: '' @ dec code)], Uncaught UnicodeDecodeError)"
    using main_create_http_error_undecodable [of argv w code lib creds fuel] by blast
qed

theorem create_task_result_witness:
  "2 \<le> length sample_argv
   \<and> urlopen (replies [HTTPError 403 (Some ''Forbidden'')]) 0 = HTTPError 403 (Some ''Forbidden'')
   \<and> main sample_lib sample_creds (replies [HTTPError 403 (Some ''Forbidden'')]) 7 sample_argv
       = ([Print ''Creating task for: https://example.com/a.mp3'',
           create_task_request sample_lib sample_creds sample_reading ''https://example.com/a.mp3'',
           Print ''HTTP Error: 403'', Print ''Forbidden''], Exit 0)
   \<and> urlopen (replies [HTTPError 403 None]) 0 = HTTPError 403 None
   \<and> main sample_lib sample_creds (replies [HTTPError 403 None]) 7 sample_argv
       = ([Print ''Creating task for: https://example.com/a.mp3'',
           create_task_request sample_lib sample_creds sample_reading ''https://example.com/a.mp3'',
           Print ''HTTP Error: 403''], Uncaught UnicodeDecodeError)
   \<and> urlopen sample_world 0 = Success (JObj [(''Data'', JObj [(''TaskId'', JStr ''t-1'')])])
   \<and> map_of [(''Data'', JObj [(''TaskId'', JStr ''t-1'')])] ''Data''
       = Some (JObj [(''TaskId'', JStr ''t-1'')])
   \<and> map_of [(''TaskId'', JStr ''t-1'')] ''TaskId'' = Some (JStr ''t-1'')
   \<and> snd (main sample_lib sample_creds sample_world 7 sample_argv)
       = snd (poll_loop sample_lib sample_creds sample_world (JStr ''t-1'') 7 1)
   \<and> create_task sample_lib sample_creds sample_reading created ''https://example.com/a.mp3''
       = ([create_task_request sample_lib sample_creds sample_reading ''https://example.com/a.mp3''],
          Inr (JObj [(''Data'', JObj [(''TaskId'', JStr ''t-1'')])]))"
proof -
  have len: "2 \<le> length sample_argv"
    by (simp add: sample_argv_def)
  have first: "urlopen (replies [HTTPError 403 (Some ''Forbidden'')]) 0
               = HTTPError 403 (Some ''Forbidden'')"
    by (simp add: replies_def)
  have second: "urlopen (replies [HTTPError 403 None]) 0 = HTTPError 403 None"
    by (simp add: replies_def)
  have ok: "urlopen sample_world 0 = Success (JObj [(''Data'', JObj [(''TaskId'', JStr ''t-1'')])])"
    by (simp add: sample_world_def replies_def created_def)
  have d: "map_of [(''Data'', JObj [(''TaskId'', JStr ''t-1'')])] ''Data''
           = Some (JObj [(''TaskId'', JStr ''t-1'')])"
    by simp
  have i: "map_of [(''TaskId'', JStr ''t-1'')] ''TaskId'' = Some (JStr ''t-1'')"
    by simp
  have "main sample_lib sample_creds (replies [HTTPError 403 (Some ''Forbidden'')]) 7 sample_argv
        = ([Print (''Creating task for: '' @ sample_argv ! 1),
            create_task_request sample_lib sample_creds
              (clock (replies [HTTPError 403 (Some ''Forbidden'')]) 0) (sample_argv ! 1),
            Print (''HTTP Error: '' @ dec 403), Print ''Forbidden''], Exit 0)"
    using create_task_result [where argv=sample_argv
        and w="replies [HTTPError 403 (Some ''Forbidden'')]"
        and code=403 and msg="''Forbidden''" and lib=sample_lib and creds=sample_creds and fuel=7]
      len first
    by blast
  then have a: "main sample_lib sample_creds (replies [HTTPError 403 (Some ''Forbidden'')]) 7
                  sample_argv
       = ([Print ''Creating task for: https://example.com/a.mp3'',
           create_task_request sample_lib sample_creds sample_reading ''https://example.com/a.mp3'',
           Print ''HTTP Error: 403'', Print ''Forbidden''], Exit 0)"
    by (simp add: sample_argv_def replies_def dec_403 del: dec.simps)
  have "main sample_lib sample_creds (replies [HTTPError 403 None]) 7 sample_argv
        = ([Print (''Creating task for: '' @ sample_argv ! 1),
            create_task_request sample_lib sample_creds
              (clock (replies [HTTPError 403 None]) 0) (sample_argv ! 1),
            Print (''HTTP Error: '' @ dec 403)], Uncaught UnicodeDecodeError)"
    using create_task_result [where argv=sample_argv and w="replies [HTTPError 403 None]"
        and code=403 and lib=sample_lib and creds=sample_creds and fuel=7]
      len second
    by blast
  then have a': "main sample_lib sample_creds (replies [HTTPError 403 None]) 7 sample_argv
       = ([Print ''Creating task for: https://example.com/a.mp3'',
           create_task_request sample_lib sample_creds sample_reading ''https://example.com/a.mp3'',
           Print ''HTTP Error: 403''], Uncaught UnicodeDecodeError)"
    by (simp add: sample_argv_def replies_def dec_403 del: dec.simps)
  have "main sample_lib sample_creds sample_world 7 sample_argv
        = ([Print (''Creating task for: '' @ sample_argv ! 1),
            create_task_request sample_lib sample_creds (clock sample_world 0) (sample_argv ! 1),
            PrintJson (JObj [(''Data'', JObj [(''TaskId'', JStr ''t-1'')])]),
            Print (nl @ ''Task ID: '' @ format sample_lib (JStr ''t-1'')),
            Print ''Polling for result...'']
           @ fst (poll_loop sample_lib sample_creds sample_world (JStr ''t-1'') 7 1),
           snd (poll_loop sample_lib sample_creds sample_world (JStr ''t-1'') 7 1))"
    using create_task_result [where argv=sample_argv and w=sample_world
        and kvs="[(''Data'', JObj [(''TaskId'', JStr ''t-1'')])]"
        and kvs'="[(''TaskId'', JStr ''t-1'')]" and task_id="JStr ''t-1''"
        and lib=sample_lib and creds=sample_creds and fuel=7]
      len ok d i
    by blast
  then have b: "snd (main sample_lib sample_creds sample_world 7 sample_argv)
                = snd (poll_loop sample_lib sample_creds sample_world (JStr ''t-1'') 7 1)"
    by simp
  have c: "create_task sample_lib sample_creds sample_reading created ''https://example.com/a.mp3''
       = ([create_task_request sample_lib sample_creds sample_reading ''https://example.com/a.mp3''],
          Inr (JObj [(''Data'', JObj [(''TaskId'', JStr ''t-1'')])]))"
    using create_task_result [where r=created
        and j="JObj [(''Data'', JObj [(''TaskId'', JStr ''t-1'')])]" and lib=sample_lib
        and creds=sample_creds and rd=sample_reading and file_url="''https://example.com/a.mp3''"]
    by (simp add: created_def)
  show ?thesis
    using len first a second a' ok d i b c by (simp only: simp_thms)
qed

text \<open>
  C5, as the specification states it, fails on the code: both calls catch only
  \<open>HTTPError\<close>. In the run below the request that creates the job ends in
  \<open>URLError\<close>, and the process ends with that exception uncaught.
\<close>

theorem submission_transport_failure_is_uncaught:
  "snd (main sample_lib sample_creds (replies [Failure URLError]) 5 sample_argv)
   = Uncaught URLError"
  by (simp add: main_create_fails [where e=URLError] sample_argv_def replies_def)

text \<open>
  C5, amended. With fewer than one positional argument the process prints the usage
  message and exits with status 1. Exceptions do escape. A transport failure (network
  failure, timeout) of either call is not caught: it ends the process as an uncaught
  exception, hence with status 1, at the creation and at any poll. An HTTP error status
  is caught in both calls, and its handler raises \<open>UnicodeDecodeError\<close> when the
  body of the response is not UTF-8: with a body that decodes the process ends with
  status 0 at the creation and the loop goes on at a poll; with one that does not, the
  exception ends the process at the creation and at a poll. A non-zero exit status comes
  from the usage exit or from an uncaught exception, and from nothing else.
\<close>

theorem main_exits:
  "(length argv < 2
      \<longrightarrow> main lib creds w fuel argv
          = ([Print ''Usage: python tingwu_transcribe.py <file_url>''], Exit 1))
   \<and> (2 \<le> length argv \<and> urlopen w 0 = Failure e
        \<longrightarrow> snd (main lib creds w fuel argv) = Uncaught e
            \<and> exit_status (snd (main lib creds w fuel argv)) = Some 1)
   \<and> snd (loop_body lib creds rd (Failure e) task_id) = Raise e
   \<and> ((\<forall>i<k. snd (loop_body lib creds (clock w (n + i)) (urlopen w (n + i)) task_id) = Continue)
         \<and> urlopen w (n + k) = Failure e \<and> k < fuel
        \<longrightarrow> snd (poll_loop lib creds w task_id fuel n) = Uncaught e)
   \<and> (2 \<le> length argv \<and> urlopen w 0 = HTTPError code (Some msg)
        \<longrightarrow> snd (main lib creds w fuel argv) = Exit 0)
   \<and> snd (loop_body lib creds rd (HTTPError code (Some msg)) task_id) = Continue
   \<and> (2 \<le> length argv \<and> urlopen w 0 = HTTPError code None
        \<longrightarrow> snd (main lib creds w fuel argv) = Uncaught UnicodeDecodeError)
   \<and> snd (loop_body lib creds rd (HTTPError code None) task_id) = Raise UnicodeDecodeError
   \<and> (exit_status (snd (main lib creds w fuel argv)) = Some (Suc s)
        \<longrightarrow> length argv < 2 \<or> (\<exists>x. snd (main lib creds w fuel argv) = Uncaught x))"
proof (intro conjI impI)
  assume "length argv < 2"
  then show "main lib creds w fuel argv
             = ([Print ''Usage: python tingwu_transcribe.py <file_url>''], Exit 1)"
    by (rule main_usage)
next
  assume a: "2 \<le> length argv \<and> urlopen w 0 = Failure e"
  then show "snd (main lib creds w fuel argv) = Uncaught e"
    using main_create_fails [of argv w e lib creds fuel] by simp
next
  assume a: "2 \<le> length argv \<and> urlopen w 0 = Failure e"
  then show "exit_status (snd (main lib creds w fuel argv)) = Some 1"
    using main_create_fails [of argv w e lib creds fuel] by simp
next
  show "snd (loop_body lib creds rd (Failure e) task_id) = Raise e"
    by (simp add: loop_body_verdict verdict_def)
next
  assume "(\<forall>i<k. snd (loop_body lib creds (clock w (n + i)) (urlopen w (n + i)) task_id) = Continue)
         \<and> urlopen w (n + k) = Failure e \<and> k < fuel"
  then show "snd (poll_loop lib creds w task_id fuel n) = Uncaught e"
    unfolding loop_body_verdict
    using poll_loop_stops [of k w n fuel lib creds task_id] by (simp add: verdict_def)
next
  assume "2 \<le> length argv \<and> urlopen w 0 = HTTPError code (Some msg)"
  then show "snd (main lib creds w fuel argv) = Exit 0"
    using main_create_http_error [of argv w code msg lib creds fuel] by simp
next
  show "snd (loop_body lib creds rd (HTTPError code (Some msg)) task_id) = Continue"
    by (simp add: loop_body_verdict verdict_def)
next
  assume "2 \<le> length argv \<and> urlopen w 0 = HTTPError code None"
  then show "snd (main lib creds w fuel argv) = Uncaught UnicodeDecodeError"
    using main_create_http_error_undecodable [of argv w code lib creds fuel] by simp
next
  show "snd (loop_body lib creds rd (HTTPError code None) task_id) = Raise UnicodeDecodeError"
    by (simp add: loop_body_verdict verdict_def)
next
  assume "exit_status (snd (main lib creds w fuel argv)) = Some (Suc s)"
  then show "length argv < 2 \<or> (\<exists>x. snd (main lib creds w fuel argv) = Uncaught x)"
    by (rule main_nonzero_status)
qed

theorem main_exits_witness:
  "length [''tingwu_transcribe.py''] < 2
   \<and> main sample_lib sample_creds sample_world 7 [''tingwu_transcribe.py'']
       = ([Print ''Usage: python tingwu_transcribe.py <file_url>''], Exit 1)
   \<and> 2 \<le> length sample_argv
   \<and> urlopen (replies [HTTPError 403 (Some ''Forbidden'')]) 0 = HTTPError 403 (Some ''Forbidden'')
   \<and> snd (main sample_lib sample_creds (replies [HTTPError 403 (Some ''Forbidden'')]) 7 sample_argv)
       = Exit 0
   \<and> urlopen (replies [HTTPError 403 None]) 0 = HTTPError 403 None
   \<and> snd (main sample_lib sample_creds (replies [HTTPError 403 None]) 7 sample_argv)
       = Uncaught UnicodeDecodeError
   \<and> urlopen (replies [Failure TimeoutError]) 0 = Failure TimeoutError
   \<and> snd (main sample_lib sample_creds (replies [Failure TimeoutError]) 7 sample_argv)
       = Uncaught TimeoutError
   \<and> exit_status (snd (main sample_lib sample_creds (replies [Failure TimeoutError]) 7 sample_argv))
       = Some (Suc 0)
   \<and> snd (loop_body sample_lib sample_creds
            (clock (replies [created, status_reply ''PENDING'', Failure URLError]) 1)
            (urlopen (replies [created, status_reply ''PENDING'', Failure URLError]) 1)
            (JStr ''t-1'')) = Continue
   \<and> urlopen (replies [created, status_reply ''PENDING'', Failure URLError]) 2
       = Failure URLError
   \<and> (1::nat) < 7
   \<and> snd (poll_loop sample_lib sample_creds
            (replies [created, status_reply ''PENDING'', Failure URLError]) (JStr ''t-1'') 7 1)
       = Uncaught URLError"
proof -
  have short: "length [''tingwu_transcribe.py''] < 2"
    by simp
  have usage: "main sample_lib sample_creds sample_world 7 [''tingwu_transcribe.py'']
               = ([Print ''Usage: python tingwu_transcribe.py <file_url>''], Exit 1)"
    using main_exits [where argv="[''tingwu_transcribe.py'']" and lib=sample_lib
        and creds=sample_creds and w=sample_world and fuel=7] short
    by blast
  have len: "2 \<le> length sample_argv"
    by (simp add: sample_argv_def)
  have h: "urlopen (replies [HTTPError 403 (Some ''Forbidden'')]) 0
           = HTTPError 403 (Some ''Forbidden'')"
    by (simp add: replies_def)
  have caught: "snd (main sample_lib sample_creds (replies [HTTPError 403 (Some ''Forbidden'')]) 7
                       sample_argv) = Exit 0"
    using main_exits [where argv=sample_argv and lib=sample_lib and creds=sample_creds
        and w="replies [HTTPError 403 (Some ''Forbidden'')]" and fuel=7 and code=403
        and msg="''Forbidden''"] len h
    by blast
  have h': "urlopen (replies [HTTPError 403 None]) 0 = HTTPError 403 None"
    by (simp add: replies_def)
  have garbled: "snd (main sample_lib sample_creds (replies [HTTPError 403 None]) 7 sample_argv)
                 = Uncaught UnicodeDecodeError"
    using main_exits [where argv=sample_argv and lib=sample_lib and creds=sample_creds
        and w="replies [HTTPError 403 None]" and fuel=7 and code=403] len h'
    by blast
  have f: "urlopen (replies [Failure TimeoutError]) 0 = Failure TimeoutError"
    by (simp add: replies_def)
  have uncaught: "snd (main sample_lib sample_creds (replies [Failure TimeoutError]) 7 sample_argv)
                  = Uncaught TimeoutError"
    using main_exits [where argv=sample_argv and lib=sample_lib and creds=sample_creds
        and w="replies [Failure TimeoutError]" and fuel=7 and e=TimeoutError] len f
    by blast
  then have status: "exit_status (snd (main sample_lib sample_creds (replies [Failure TimeoutError])
                                         7 sample_argv)) = Some (Suc 0)"
    by simp
  let ?w = "replies [created, status_reply ''PENDING'', Failure URLError]"
  have cont: "\<forall>i<1. snd (loop_body sample_lib sample_creds (clock ?w (1 + i))
                          (urlopen ?w (1 + i)) (JStr ''t-1'')) = Continue"
    by (simp add: loop_body_verdict replies_def sample_verdicts)
  have g: "urlopen ?w (1 + 1) = Failure URLError"
    by (simp add: replies_def)
  have c1: "snd (loop_body sample_lib sample_creds (clock ?w 1) (urlopen ?w 1) (JStr ''t-1''))
            = Continue"
    using cont by simp
  have g2: "urlopen ?w 2 = Failure URLError"
    using g by (simp add: numeral_2_eq_2)
  have fuel: "(1::nat) < 7"
    by simp
  have poll: "snd (poll_loop sample_lib sample_creds ?w (JStr ''t-1'') 7 1) = Uncaught URLError"
    using main_exits [where lib=sample_lib and creds=sample_creds and w="?w" and fuel=7
        and e=URLError and k=1 and n=1 and task_id="JStr ''t-1''"] cont g fuel
    by blast
  show ?thesis
    using short usage len h caught h' garbled f uncaught status c1 g2 fuel poll
    by (simp only: simp_thms)
qed

section \<open>The hash of an empty body\<close>

text \<open>
  The empty message is padded to one block; the digest of that block is computed inside
  the logic.
\<close>

lemma replicate_numeral_step: "replicate (numeral k) x = x # replicate (pred_numeral k) x"
  by (simp add: numeral_eq_Suc)

lemma pad_empty:
  "pad [] = [128, 0, 0, 0, 0, 0, 0, 0, 0, 0, 0, 0, 0, 0, 0, 0,
             0, 0, 0, 0, 0, 0, 0, 0, 0, 0, 0, 0, 0, 0, 0, 0,
             0, 0, 0, 0, 0, 0, 0, 0, 0, 0, 0, 0, 0, 0, 0, 0,
             0, 0, 0, 0, 0, 0, 0, 0, 0, 0, 0, 0, 0, 0, 0, 0]"
  by (simp add: pad_def len_bytes_def replicate_numeral_step)

lemma length_pad_empty: "length (pad []) = 64"
  by (simp add: pad_def len_bytes_def)

lemma blocks_one: "length bs = 64 \<Longrightarrow> blocks (length bs div 64) bs = [bs]"
  by simp

lemma compress_empty:
  "compress H256 [128, 0, 0, 0, 0, 0, 0, 0, 0, 0, 0, 0, 0, 0, 0, 0,
             0, 0, 0, 0, 0, 0, 0, 0, 0, 0, 0, 0, 0, 0, 0, 0,
             0, 0, 0, 0, 0, 0, 0, 0, 0, 0, 0, 0, 0, 0, 0, 0,
             0, 0, 0, 0, 0, 0, 0, 0, 0, 0, 0, 0, 0, 0, 0, 0]
   = (3820012610, 2566659092, 2600203464, 2574235940, 665731556, 1687917388,
      2761267483, 2018687061)"
  by (simp add: compress_def K256_def H256_def rotr_def bsig0_def bsig1_def ssig0_def ssig1_def
      Ch_def Maj_def add32_def)

lemma digest_empty:
  "hexdigest (digest (3820012610, 2566659092, 2600203464, 2574235940, 665731556, 1687917388,
                      2761267483, 2018687061))
   = ''e3b0c44298fc1c149afbf4c8996fb92427ae41e4649b934ca495991b7852b855''"
  by (simp add: hexdigest_def hex_byte_def hexdigit_def word_bytes_def)

lemma sha256_empty:
  "sha256_hex [] = ''e3b0c44298fc1c149afbf4c8996fb92427ae41e4649b934ca495991b7852b855''"
proof -
  have "sha256 [] = foldl compress H256 (blocks (length (pad []) div 64) (pad []))"
    by (simp only: sha256_def Let_def)
  also have "\<dots> = foldl compress H256 [pad []]"
    by (simp only: blocks_one [OF length_pad_empty])
  also have "\<dots> = compress H256 (pad [])"
    by (simp only: foldl_Cons foldl_Nil)
  also have "\<dots> = (3820012610, 2566659092, 2600203464, 2574235940, 665731556, 1687917388,
                    2761267483, 2018687061)"
    by (simp only: pad_empty compress_empty)
  finally show ?thesis
    by (simp only: sha256_hex_def digest_empty)
qed

lemma no_body_hash:
  "sha256_hex (encode (or_empty None))
   = ''e3b0c44298fc1c149afbf4c8996fb92427ae41e4649b934ca495991b7852b855''"
  by (simp add: or_empty_def encode_def sha256_empty)

text \<open>
  C8. Let the URL parse. When \<open>sign\<close> is called without a body, the value it stores
  under \<open>x-acs-content-sha256\<close> is
  \<open>e3b0c44298fc1c149afbf4c8996fb92427ae41e4649b934ca495991b7852b855\<close>, the lowercase
  hexadecimal SHA-256 of the empty string; when the four headers are present, the same
  constant is the content hash of the header block and the last line of the canonical
  request that is signed. The request of \<open>get_task\<close>, which signs without a body,
  carries this value in its header.
\<close>

theorem sign_empty_body:
  assumes "urlparse lib url = Inr p"
  shows "sha256_hex (encode '''')
         = ''e3b0c44298fc1c149afbf4c8996fb92427ae41e4649b934ca495991b7852b855''
       \<and> map_of (snd (sign lib creds meth url h None \<sigma>) h) ''x-acs-content-sha256''
           = Some ''e3b0c44298fc1c149afbf4c8996fb92427ae41e4649b934ca495991b7852b855''
       \<and> (map_of (\<sigma> h) ''x-acs-action'' = Some a \<and> map_of (\<sigma> h) ''x-acs-date'' = Some dt
            \<and> map_of (\<sigma> h) ''x-acs-signature-nonce'' = Some n
            \<and> map_of (\<sigma> h) ''x-acs-version'' = Some v
           \<longrightarrow> map_of (snd (sign lib creds meth url h None \<sigma>) h) ''Authorization''
               = Some (spec_authorization (ACCESS_KEY_ID creds)
                        (spec_signature (ACCESS_KEY_SECRET creds)
                           (spec_canonical_request meth (path p) (query p)
                              (spec_header_block [netloc p, a,
                                 ''e3b0c44298fc1c149afbf4c8996fb92427ae41e4649b934ca495991b7852b855'',
                                 dt, n, v])
                              ''e3b0c44298fc1c149afbf4c8996fb92427ae41e4649b934ca495991b7852b855''))))
       \<and> (\<exists>hdrs. get_task lib creds rd r task_id
                    = send (Urlopen ''GET'' (endpoint @ ''?TaskId='' @ format lib task_id) hdrs
                              None 30) r
                  \<and> map_of hdrs ''x-acs-content-sha256''
                      = Some ''e3b0c44298fc1c149afbf4c8996fb92427ae41e4649b934ca495991b7852b855'')"
proof (intro conjI impI)
  show "sha256_hex (encode '''')
        = ''e3b0c44298fc1c149afbf4c8996fb92427ae41e4649b934ca495991b7852b855''"
    by (simp add: encode_def sha256_empty)
next
  show "map_of (snd (sign lib creds meth url h None \<sigma>) h) ''x-acs-content-sha256''
        = Some ''e3b0c44298fc1c149afbf4c8996fb92427ae41e4649b934ca495991b7852b855''"
    using sign_inserts_hash [OF assms, of creds meth h None \<sigma>]
    by (simp only: no_body_hash)
next
  assume "map_of (\<sigma> h) ''x-acs-action'' = Some a \<and> map_of (\<sigma> h) ''x-acs-date'' = Some dt
          \<and> map_of (\<sigma> h) ''x-acs-signature-nonce'' = Some n
          \<and> map_of (\<sigma> h) ''x-acs-version'' = Some v"
  then have "sign lib creds meth url h None \<sigma>
        = (Inr h,
           \<sigma>(h := setitem (setitem (\<sigma> h) ''x-acs-content-sha256''
                              (sha256_hex (encode (or_empty None)))) ''Authorization''
                    (spec_authorization (ACCESS_KEY_ID creds)
                       (spec_signature (ACCESS_KEY_SECRET creds)
                          (spec_canonical_request meth (path p) (query p)
                             (spec_header_block [netloc p, a, sha256_hex (encode (or_empty None)),
                                dt, n, v])
                             (sha256_hex (encode (or_empty None))))))))"
    using sign_returns_spec [where \<sigma>=\<sigma> and h=h and body=None, OF assms _ _ _ _ refl] by blast
  then show "map_of (snd (sign lib creds meth url h None \<sigma>) h) ''Authorization''
             = Some (spec_authorization (ACCESS_KEY_ID creds)
                      (spec_signature (ACCESS_KEY_SECRET creds)
                         (spec_canonical_request meth (path p) (query p)
                            (spec_header_block [netloc p, a,
                               ''e3b0c44298fc1c149afbf4c8996fb92427ae41e4649b934ca495991b7852b855'',
                               dt, n, v])
                            ''e3b0c44298fc1c149afbf4c8996fb92427ae41e4649b934ca495991b7852b855'')))"
    by (simp only: no_body_hash) (simp add: map_of_setitem)
next
  obtain hdrs where
    "get_task_request lib creds rd task_id
     = Urlopen ''GET'' (endpoint @ ''?TaskId='' @ format lib task_id) hdrs None 30"
    and "map_of hdrs ''x-acs-content-sha256'' = Some (sha256_hex [])"
    using get_task_request_hash by blast
  then have "get_task lib creds rd r task_id
             = send (Urlopen ''GET'' (endpoint @ ''?TaskId='' @ format lib task_id) hdrs None 30) r
           \<and> map_of hdrs ''x-acs-content-sha256''
               = Some ''e3b0c44298fc1c149afbf4c8996fb92427ae41e4649b934ca495991b7852b855''"
    by (simp only: get_task_sends sha256_empty)
  then show "\<exists>hdrs. get_task lib creds rd r task_id
                    = send (Urlopen ''GET'' (endpoint @ ''?TaskId='' @ format lib task_id) hdrs
                              None 30) r
                  \<and> map_of hdrs ''x-acs-content-sha256''
                      = Some ''e3b0c44298fc1c149afbf4c8996fb92427ae41e4649b934ca495991b7852b855''"
    by blast
qed

theorem sign_empty_body_witness:
  "urlparse sample_lib sample_url = Inr sample_parsed
   \<and> map_of (sample_store 0) ''x-acs-action'' = Some ''GetTaskInfo''
   \<and> map_of (sample_store 0) ''x-acs-date'' = Some ''2024-01-02T03:04:05Z''
   \<and> map_of (sample_store 0) ''x-acs-signature-nonce'' = Some ''abc123''
   \<and> map_of (sample_store 0) ''x-acs-version'' = Some ''2023-09-30''
   \<and> map_of (snd (sign sample_lib sample_creds ''GET'' sample_url 0 None sample_store) 0)
         ''x-acs-content-sha256''
       = Some ''e3b0c44298fc1c149afbf4c8996fb92427ae41e4649b934ca495991b7852b855''
   \<and> map_of (snd (sign sample_lib sample_creds ''GET'' sample_url 0 None sample_store) 0)
         ''Authorization''
       = Some (spec_authorization ''AKID''
                (spec_signature ''SECRET''
                   (spec_canonical_request ''GET'' ''/'' ''TaskId=t-1''
                      (spec_header_block [''tingwu.cn-beijing.aliyuncs.com'', ''GetTaskInfo'',
                         ''e3b0c44298fc1c149afbf4c8996fb92427ae41e4649b934ca495991b7852b855'',
                         ''2024-01-02T03:04:05Z'', ''abc123'', ''2023-09-30''])
                      ''e3b0c44298fc1c149afbf4c8996fb92427ae41e4649b934ca495991b7852b855'')))"
proof -
  have l1: "map_of (sample_store 0) ''x-acs-action'' = Some ''GetTaskInfo''"
    by (simp add: sample_store_def sample_headers_def)
  have l2: "map_of (sample_store 0) ''x-acs-date'' = Some ''2024-01-02T03:04:05Z''"
    by (simp add: sample_store_def sample_headers_def)
  have l3: "map_of (sample_store 0) ''x-acs-signature-nonce'' = Some ''abc123''"
    by (simp add: sample_store_def sample_headers_def)
  have l4: "map_of (sample_store 0) ''x-acs-version'' = Some ''2023-09-30''"
    by (simp add: sample_store_def sample_headers_def)
  note t = sign_empty_body [where \<sigma>=sample_store and h=0 and creds=sample_creds
      and meth="''GET''" and a="''GetTaskInfo''" and dt="''2024-01-02T03:04:05Z''"
      and n="''abc123''" and v="''2023-09-30''", OF urlparse_sample]
  have a: "map_of (snd (sign sample_lib sample_creds ''GET'' sample_url 0 None sample_store) 0)
             ''x-acs-content-sha256''
           = Some ''e3b0c44298fc1c149afbf4c8996fb92427ae41e4649b934ca495991b7852b855''"
    using t by blast
  have "map_of (snd (sign sample_lib sample_creds ''GET'' sample_url 0 None sample_store) 0)
          ''Authorization''
        = Some (spec_authorization (ACCESS_KEY_ID sample_creds)
                 (spec_signature (ACCESS_KEY_SECRET sample_creds)
                    (spec_canonical_request ''GET'' (path sample_parsed) (query sample_parsed)
                       (spec_header_block [netloc sample_parsed, ''GetTaskInfo'',
                          ''e3b0c44298fc1c149afbf4c8996fb92427ae41e4649b934ca495991b7852b855'',
                          ''2024-01-02T03:04:05Z'', ''abc123'', ''2023-09-30''])
                       ''e3b0c44298fc1c149afbf4c8996fb92427ae41e4649b934ca495991b7852b855'')))"
    using t l1 l2 l3 l4 by blast
  then have b: "map_of (snd (sign sample_lib sample_creds ''GET'' sample_url 0 None sample_store) 0)
         ''Authorization''
       = Some (spec_authorization ''AKID''
                (spec_signature ''SECRET''
                   (spec_canonical_request ''GET'' ''/'' ''TaskId=t-1''
                      (spec_header_block [''tingwu.cn-beijing.aliyuncs.com'', ''GetTaskInfo'',
                         ''e3b0c44298fc1c149afbf4c8996fb92427ae41e4649b934ca495991b7852b855'',
                         ''2024-01-02T03:04:05Z'', ''abc123'', ''2023-09-30''])
                      ''e3b0c44298fc1c149afbf4c8996fb92427ae41e4649b934ca495991b7852b855'')))"
    by (simp add: sample_parsed_def sample_creds_def)
  show ?thesis
    using urlparse_sample l1 l2 l3 l4 a b by (simp only: simp_thms)
qed

end
